theory Spec2Isabelle
  imports Complex_Main "HOL-Library.AList" "HOL-Library.Sublist"
begin
section \<open>Python exceptions and values\<close>

text \<open>
  The exceptions the modelled code raises or catches, each with the text \<open>str(e)\<close>
  gives. \<open>BaseExc\<close> stands for the exceptions outside Python's \<open>Exception\<close> class
  (\<open>KeyboardInterrupt\<close>, \<open>SystemExit\<close>), which \<open>except Exception\<close> does not catch;
  \<open>MarkupError\<close> is the exception of the \<open>rich\<close> console. A computation that may
  raise returns \<open>exn + 'a\<close>, with \<open>Inl\<close> for the raise.
\<close>

datatype exn =
    ImportError string
  | TypeError string
  | OSError string
  | KeyError string
  | AttributeError string
  | MarkupError string
  | OtherException string
  | BaseExc string

fun is_exception :: "exn \<Rightarrow> bool" where
  "is_exception (BaseExc _) = False"
| "is_exception _ = True"

fun str_exn :: "exn \<Rightarrow> string" where
  "str_exn (ImportError m) = m"
| "str_exn (TypeError m) = m"
| "str_exn (OSError m) = m"
| "str_exn (KeyError m) = m"
| "str_exn (AttributeError m) = m"
| "str_exn (MarkupError m) = m"
| "str_exn (OtherException m) = m"
| "str_exn (BaseExc m) = m"

definition bind_exn :: "exn + 'a \<Rightarrow> ('a \<Rightarrow> exn + 'b) \<Rightarrow> exn + 'b" where
  "bind_exn x f = (case x of Inl e \<Rightarrow> Inl e | Inr v \<Rightarrow> f v)"

text \<open>
  The values \<open>json.load\<close> and \<open>response.json()\<close> return: any JSON value, an object
  being a Python dict (an association list with distinct keys, in order). \<open>truthy\<close> is
  Python's truth test and \<open>type_name\<close> the name of the type in error messages.
\<close>

datatype json =
    JNull
  | JBool bool
  | JInt int
  | JFloat rat
  | JStr string
  | JList "json list"
  | JObj "(string \<times> json) list"

fun truthy :: "json \<Rightarrow> bool" where
  "truthy JNull = False"
| "truthy (JBool b) = b"
| "truthy (JInt n) = (n \<noteq> 0)"
| "truthy (JFloat x) = (x \<noteq> 0)"
| "truthy (JStr s) = (s \<noteq> [])"
| "truthy (JList xs) = (xs \<noteq> [])"
| "truthy (JObj kvs) = (kvs \<noteq> [])"

fun type_name :: "json \<Rightarrow> string" where
  "type_name JNull = ''NoneType''"
| "type_name (JBool _) = ''bool''"
| "type_name (JInt _) = ''int''"
| "type_name (JFloat _) = ''float''"
| "type_name (JStr _) = ''str''"
| "type_name (JList _) = ''list''"
| "type_name (JObj _) = ''dict''"

definition no_attribute :: "json \<Rightarrow> string \<Rightarrow> exn" where
  "no_attribute v attr =
     AttributeError ([CHR 0x27] @ type_name v @ [CHR 0x27] @ '' object has no attribute ''
                     @ [CHR 0x27] @ attr @ [CHR 0x27])"

text \<open>
  \<open>v.get(key, default)\<close>: a dict answers, every other value has no \<open>get\<close>.
  \<open>v.get(key)\<close> is \<open>py_get v key JNull\<close>.
\<close>

definition py_get :: "json \<Rightarrow> string \<Rightarrow> json \<Rightarrow> exn + json" where
  "py_get v key d =
     (case v of
        JObj kvs \<Rightarrow> (case map_of kvs key of Some x \<Rightarrow> Inr x | None \<Rightarrow> Inr d)
      | _ \<Rightarrow> Inl (no_attribute v ''get''))"

text \<open>
  \<open>for x in v\<close>: a list gives its elements, a string its characters, a dict its keys;
  the other values are not iterable.
\<close>

definition py_iter :: "json \<Rightarrow> exn + json list" where
  "py_iter v =
     (case v of
        JList xs \<Rightarrow> Inr xs
      | JStr s \<Rightarrow> Inr (map (\<lambda>c. JStr [c]) s)
      | JObj kvs \<Rightarrow> Inr (map (\<lambda>kv. JStr (fst kv)) kvs)
      | _ \<Rightarrow> Inl (TypeError ([CHR 0x27] @ type_name v @ [CHR 0x27] @ '' object is not iterable'')))"

subsection \<open>Strings\<close>

text \<open>
  A string is a list of \<open>char\<close>, one \<open>char\<close> for each character of the Python string;
  the 8-bit \<open>char\<close> can stand for the characters of ASCII text, on which \<open>take\<close> and
  \<open>length\<close> are Python's slice and \<open>len\<close>. \<open>lower\<close> is \<open>str.lower\<close> on ASCII
  text: it maps the letters A to Z and leaves every other character as it is (the code
  that lowers arbitrary text takes Python's \<open>str.lower\<close> as a parameter instead).
  \<open>str_nat\<close> is \<open>str\<close> of a natural number; \<open>join\<close> is \<open>sep.join\<close>; \<open>replace\<close> is
  \<open>str.replace\<close> for a pattern that is not empty (for the empty pattern, which the
  modelled code never passes, the string is returned unchanged).
\<close>

definition lower_char :: "char \<Rightarrow> char" where
  "lower_char c =
     (case map_of (zip ''ABCDEFGHIJKLMNOPQRSTUVWXYZ'' ''abcdefghijklmnopqrstuvwxyz'') c of
        Some l \<Rightarrow> l
      | None \<Rightarrow> c)"

definition lower :: "string \<Rightarrow> string" where
  "lower s = map lower_char s"

definition digit_char :: "nat \<Rightarrow> char" where
  "digit_char d = ''0123456789'' ! d"

fun str_nat :: "nat \<Rightarrow> string" where
  "str_nat n = (if n < 10 then [digit_char n] else str_nat (n div 10) @ [digit_char (n mod 10)])"

declare str_nat.simps [simp del]

fun join :: "string \<Rightarrow> string list \<Rightarrow> string" where
  "join sep [] = []"
| "join sep [x] = x"
| "join sep (x # y # ys) = x @ sep @ join sep (y # ys)"

function replace :: "string \<Rightarrow> string \<Rightarrow> string \<Rightarrow> string" where
  "replace old new s =
     (if old = [] \<or> s = [] then s
      else if prefix old s then new @ replace old new (drop (length old) s)
      else hd s # replace old new (tl s))"
  by pat_completeness auto
termination
  by (relation "measure (\<lambda>(old, new, s). length s)") auto

declare replace.simps [simp del]

section \<open>Tools, skills and the agent (agent.py)\<close>

text \<open>
  \<open>Tool\<close> is declared in \<open>r_cli/core/llm.py\<close>, which is not among the sources; its
  fields are taken from its uses (\<open>Tool(name=, description=, parameters=, handler=)\<close>).
  The JSON schema of the parameters is an opaque string, keyword arguments are an
  association list.
\<close>

type_synonym kwargs = "(string \<times> string) list"

record tool =
  tool_name :: string
  tool_description :: string
  tool_parameters :: string
  tool_handler :: "kwargs \<Rightarrow> string"

text \<open>
  A \<open>Skill\<close> instance: its \<open>name\<close> and \<open>description\<close> attributes, the list
  \<open>get_tools()\<close> returns and the \<open>execute(**kwargs)\<close> entry point.
\<close>

record skill =
  skill_name :: string
  skill_description :: string
  get_tools :: "tool list"
  execute :: "kwargs \<Rightarrow> exn + string"

text \<open>
  \<open>Config\<close> (\<open>r_cli/core/config.py\<close>) is not among the sources; the agent reads
  \<open>config.skills.is_skill_enabled(name)\<close> only, so that is all the model keeps.
\<close>

record config =
  is_skill_enabled :: "string \<Rightarrow> bool"

text \<open>
  A skill class: \<open>__name__\<close>, the class attribute \<open>name\<close>, and what calling the class
  on the shared configuration does: raise, or return an instance.
\<close>

record skill_class =
  class_name :: string
  class_skill_name :: string
  construct :: "config \<Rightarrow> exn + skill"

text \<open>
  Modelled from the spec: \<open>Memory\<close> (\<open>r_cli/core/memory.py\<close>) is not among the
  sources. The spec gives it an ordered buffer of short-term entries (type tag and text;
  the timestamp is left out), \<open>add_short_term\<close> appending one entry,
  \<open>save_session\<close> writing the buffer to durable storage, and
  \<open>get_relevant_context\<close> returning a text that is a function of the buffer and the
  query; the relevance strategy is a parameter of the model.
\<close>

record entry =
  entry_type :: string
  content :: string

record memory =
  short_term :: "entry list"
  session_store :: "entry list option"

text \<open>
  Modelled from the spec: \<open>Memory.add_short_term(text, entry_type)\<close>, which is not
  among the sources, appends an entry to the in-memory buffer.
\<close>

definition add_short_term :: "string \<Rightarrow> string \<Rightarrow> memory \<Rightarrow> memory" where
  "add_short_term text etype m =
     m\<lparr>short_term := short_term m @ [\<lparr>entry_type = etype, content = text\<rparr>]\<rparr>"

text \<open>
  Modelled from the spec: \<open>Memory.save_session()\<close>, which is not among the sources,
  writes the short-term buffer to durable storage, overwriting what was stored.
\<close>

definition save_session :: "memory \<Rightarrow> memory" where
  "save_session m = m\<lparr>session_store := Some (short_term m)\<rparr>"

text \<open>
  The collaborators that \<open>Agent.run\<close> calls and that are not among the sources: the two
  chat entry points of the LLM client, over a client state \<open>'l\<close>, each returning the
  reply or raising, and the relevance strategy of the memory. \<open>chat\<close> returns the
  \<open>content\<close> of the reply message, which may be \<open>None\<close>.
\<close>

record 'l collaborators =
  chat :: "'l \<Rightarrow> string \<Rightarrow> (exn + string option) \<times> 'l"
  chat_with_tools :: "'l \<Rightarrow> string \<Rightarrow> tool list \<Rightarrow> (exn + string) \<times> 'l"
  get_relevant_context :: "entry list \<Rightarrow> string \<Rightarrow> string"

text \<open>
  The calls the agent makes on its memory and on the LLM client are recorded in order in
  \<open>calls\<close>, as a mock would; \<open>GetRelevantContext\<close> keeps the buffer the fetch read and
  \<open>ChatWithTools\<close> the names of the tools passed.
\<close>

datatype call =
    AddShortTerm string string
  | GetRelevantContext string "entry list"
  | Chat string
  | ChatWithTools string "string list"
  | SaveSession

record 'l agent =
  agent_config :: config
  llm :: 'l
  agent_memory :: memory
  skills :: "(string \<times> skill) list"
  tools :: "tool list"
  printed :: "string list"
  calls :: "call list"

text \<open>
  The console is \<open>rich\<close>'s \<open>Console\<close>, which is outside the sources:
  \<open>console.print(text)\<close> reads \<open>text\<close> as console markup, and either prints it or
  raises (\<open>rich\<close> raises \<open>MarkupError\<close> on a closing tag that matches no open tag). A
  console is the function that tells which: the exception raised, or \<open>None\<close> when the
  text is printed. The lines printed are kept in \<open>printed\<close>.
\<close>

type_synonym console = "string \<Rightarrow> exn option"

definition print_line :: "console \<Rightarrow> string \<Rightarrow> 'l agent \<Rightarrow> (exn + unit) \<times> 'l agent" where
  "print_line con s a =
     (case con s of
        Some e \<Rightarrow> (Inl e, a)
      | None \<Rightarrow> (Inr (), a\<lparr>printed := printed a @ [s]\<rparr>))"

text \<open>
  \<open>register_skill\<close>. \<open>self.skills\<close> is a Python dict: assigning to a key that is present
  replaces the value in place, assigning to a new key appends it, which is
  \<open>AList.update\<close>. The print comes last, so a raise of the console leaves the skill and
  its tools registered.
\<close>

definition register_skill :: "console \<Rightarrow> 'l agent \<Rightarrow> skill \<Rightarrow> (exn + unit) \<times> 'l agent" where
  "register_skill con a skill =
     print_line con (''[dim]Skill registered: '' @ skill_name skill @ ''[/dim]'')
       (a\<lparr>skills := AList.update (skill_name skill) skill (skills a),
          tools := tools a @ get_tools skill\<rparr>)"

text \<open>
  One iteration of the loop of \<open>load_skills\<close>: the \<open>try\<close> body, then the handlers in the
  order of the source. The last handler is \<open>except Exception\<close>; what it does not catch
  leaves the loop, and so does what the print of a handler raises.
\<close>

definition load_skill_try :: "console \<Rightarrow> 'l agent \<Rightarrow> skill_class \<Rightarrow> (exn + unit) \<times> 'l agent" where
  "load_skill_try con a skill_class =
     (case construct skill_class (agent_config a) of
        Inl e \<Rightarrow> (Inl e, a)
      | Inr skill \<Rightarrow>
          if \<not> is_skill_enabled (agent_config a) (skill_name skill)
          then print_line con (''[dim]Skill disabled in config: '' @ skill_name skill @ ''[/dim]'') a
          else register_skill con a skill)"

definition load_skill_class :: "console \<Rightarrow> 'l agent \<Rightarrow> skill_class \<Rightarrow> (exn + unit) \<times> 'l agent" where
  "load_skill_class con a skill_class =
     (case load_skill_try con a skill_class of
        (Inr u, a') \<Rightarrow> (Inr u, a')
      | (Inl (ImportError e), a') \<Rightarrow>
          print_line con (''[yellow]Missing dependency for '' @ class_name skill_class @ '': '' @ e @ ''[/yellow]'') a'
      | (Inl (TypeError e), a') \<Rightarrow>
          print_line con (''[yellow]Configuration error in '' @ class_name skill_class @ '': '' @ e @ ''[/yellow]'') a'
      | (Inl (OSError e), a') \<Rightarrow>
          print_line con (''[yellow]File/IO error in '' @ class_name skill_class @ '': '' @ e @ ''[/yellow]'') a'
      | (Inl (BaseExc e), a') \<Rightarrow> (Inl (BaseExc e), a')
      | (Inl e, a') \<Rightarrow>
          print_line con (''[yellow]Unexpected error loading '' @ class_name skill_class @ '': '' @ str_exn e @ ''[/yellow]'') a')"

text \<open>
  \<open>load_skills\<close> iterates the list \<open>get_all_skills()\<close> returns; the list is an argument
  here, since the classes it names are not among the sources. The import of
  \<open>get_all_skills\<close> at the head of the function, which stands outside the \<open>try\<close>, is
  taken to have succeeded.
\<close>

fun load_skills :: "console \<Rightarrow> 'l agent \<Rightarrow> skill_class list \<Rightarrow> (exn + unit) \<times> 'l agent" where
  "load_skills con a [] = (Inr (), a)"
| "load_skills con a (skill_class # rest) =
     (case load_skill_class con a skill_class of
        (Inl e, a') \<Rightarrow> (Inl e, a')
      | (Inr u, a') \<Rightarrow> load_skills con a' rest)"

definition get_available_skills :: "'l agent \<Rightarrow> string list" where
  "get_available_skills a = map fst (skills a)"

definition run_skill_directly :: "'l agent \<Rightarrow> string \<Rightarrow> kwargs \<Rightarrow> exn + string" where
  "run_skill_directly a name kwargs =
     (if name \<notin> set (map fst (skills a)) then Inr (''Skill not found: '' @ name)
      else (case map_of (skills a) name of
              None \<Rightarrow> Inl (KeyError name)
            | Some skill \<Rightarrow> execute skill kwargs))"

text \<open>
  \<open>Agent.run\<close>. The f-string of the augmented input has two newlines before and one after
  the marker. A raise of the LLM call leaves \<open>run\<close> at that point, with the memory as it
  is then. \<open>response_msg.content or ""\<close> turns a missing content into the empty string.
\<close>

definition augment :: "string \<Rightarrow> string \<Rightarrow> string" where
  "augment user_input context =
     (if context \<noteq> [] then
        user_input @ [CHR 0x0A, CHR 0x0A] @ ''[Available context]'' @ [CHR 0x0A] @ context
      else user_input)"

definition content_or_empty :: "string option \<Rightarrow> string" where
  "content_or_empty c = (case c of None \<Rightarrow> [] | Some text \<Rightarrow> text)"

definition run :: "'l collaborators \<Rightarrow> 'l agent \<Rightarrow> string \<Rightarrow> (exn + string) \<times> 'l agent" where
  "run io a user_input =
     (let a1 = a\<lparr>agent_memory := add_short_term user_input ''user_input'' (agent_memory a),
                 calls := calls a @ [AddShortTerm user_input ''user_input'']\<rparr>;
          context = get_relevant_context io (short_term (agent_memory a1)) user_input;
          a2 = a1\<lparr>calls := calls a1 @ [GetRelevantContext user_input (short_term (agent_memory a1))]\<rparr>;
          augmented_input = augment user_input context;
          (response, a3) =
            (if tools a2 \<noteq> [] then
               (case chat_with_tools io (llm a2) augmented_input (tools a2) of
                  (r, l) \<Rightarrow>
                    (r, a2\<lparr>llm := l,
                       calls := calls a2 @ [ChatWithTools augmented_input (map tool_name (tools a2))]\<rparr>))
             else
               (case chat io (llm a2) augmented_input of
                  (r, l) \<Rightarrow>
                    (map_sum id content_or_empty r,
                     a2\<lparr>llm := l, calls := calls a2 @ [Chat augmented_input]\<rparr>)))
      in case response of
           Inl e \<Rightarrow> (Inl e, a3)
         | Inr response \<Rightarrow>
             (Inr response,
              a3\<lparr>agent_memory :=
                    save_session (add_short_term response ''agent_response'' (agent_memory a3)),
                  calls := calls a3 @ [AddShortTerm response ''agent_response'', SaveSession]\<rparr>))"

fun is_chat :: "call \<Rightarrow> bool" where
  "is_chat (Chat _) = True"
| "is_chat _ = False"

fun is_chat_with_tools :: "call \<Rightarrow> bool" where
  "is_chat_with_tools (ChatWithTools _ _) = True"
| "is_chat_with_tools _ = False"

text \<open>
  The buffer of a turn once the user input is appended, and the prompt built from the
  context fetched on that buffer.
\<close>

definition turn_buffer :: "'l agent \<Rightarrow> string \<Rightarrow> entry list" where
  "turn_buffer a user_input =
     short_term (agent_memory a) @ [\<lparr>entry_type = ''user_input'', content = user_input\<rparr>]"

definition turn_prompt :: "'l collaborators \<Rightarrow> 'l agent \<Rightarrow> string \<Rightarrow> string" where
  "turn_prompt io a user_input =
     augment user_input (get_relevant_context io (turn_buffer a user_input) user_input)"

text \<open>The calls a \<open>run\<close> adds to the log of the agent it started from.\<close>

definition calls_of_run :: "'l collaborators \<Rightarrow> 'l agent \<Rightarrow> string \<Rightarrow> call list" where
  "calls_of_run io a user_input = drop (length (calls a)) (calls (snd (run io a user_input)))"

text \<open>The three construction failures that \<open>load_skills\<close> names in its handlers.\<close>

fun load_failure :: "exn \<Rightarrow> bool" where
  "load_failure (ImportError _) = True"
| "load_failure (TypeError _) = True"
| "load_failure (OSError _) = True"
| "load_failure _ = False"

definition constructs_or_fails :: "config \<Rightarrow> skill_class \<Rightarrow> bool" where
  "constructs_or_fails cfg c =
     (case construct c cfg of Inr _ \<Rightarrow> True | Inl e \<Rightarrow> load_failure e)"

text \<open>
  The skills a run of \<open>load_skills\<close> over the classes \<open>cs\<close> hands to
  \<open>register_skill\<close>, in order: those that construct and that the configuration enables.
\<close>

definition registered_by :: "config \<Rightarrow> skill_class list \<Rightarrow> skill list" where
  "registered_by cfg cs =
     concat (map (\<lambda>c. case construct c cfg of
                          Inr skill \<Rightarrow> if is_skill_enabled cfg (skill_name skill) then [skill] else []
                        | Inl e \<Rightarrow> []) cs)"

definition tools_named :: "string \<Rightarrow> tool list \<Rightarrow> tool list" where
  "tools_named n ts = filter (\<lambda>t. tool_name t = n) ts"

subsection \<open>Fixtures\<close>

text \<open>
  A new agent (no saved session, every skill enabled), an LLM client without state that
  answers every chat with \<open>hi\<close>, and a memory whose relevant context is the text of the
  buffer.
\<close>

definition new_agent :: "unit agent" where
  "new_agent =
     \<lparr>agent_config = \<lparr>is_skill_enabled = (\<lambda>_. True)\<rparr>, llm = (),
      agent_memory = \<lparr>short_term = [], session_store = None\<rparr>,
      skills = [], tools = [], printed = [], calls = []\<rparr>"

definition hi_llm :: "unit collaborators" where
  "hi_llm =
     \<lparr>chat = (\<lambda>l _. (Inr (Some ''hi''), l)),
      chat_with_tools = (\<lambda>l _ _. (Inr ''done'', l)),
      get_relevant_context = (\<lambda>buffer _. concat (map content buffer))\<rparr>"

definition echo_tool :: "string \<Rightarrow> tool" where
  "echo_tool d =
     \<lparr>tool_name = ''echo'', tool_description = d, tool_parameters = ''{}'',
      tool_handler = (\<lambda>_. d)\<rparr>"

definition first_skill :: skill where
  "first_skill =
     \<lparr>skill_name = ''first'', skill_description = ''first skill'',
      get_tools = [echo_tool ''from first''],
      execute = (\<lambda>_. Inr ''first executed'')\<rparr>"

definition second_skill :: skill where
  "second_skill =
     \<lparr>skill_name = ''second'', skill_description = ''second skill'',
      get_tools = [echo_tool ''from second''],
      execute = (\<lambda>_. Inr ''second executed'')\<rparr>"

definition first_again :: skill where
  "first_again =
     \<lparr>skill_name = ''first'', skill_description = ''registered under a taken name'',
      get_tools = [echo_tool ''from first again''],
      execute = (\<lambda>_. Inr ''first again executed'')\<rparr>"

text \<open>
  A console that prints every text, and a console that follows the rule of \<open>rich\<close> for
  closing tags. A tag is an opening bracket, a character among \<open>a-z # / @\<close>, and the
  text up to the next closing bracket with no opening bracket in between; it is escaped
  by an odd number of backslashes before it. The name of a tag ends at the first \<open>=\<close>.
  A tag whose name starts with \<open>/\<close> closes the most recent open tag of that name, or
  the most recent open tag when the name is empty, and \<open>MarkupError\<close> is raised when
  there is none. Names are compared as written.
\<close>

definition quiet_console :: console where
  "quiet_console = (\<lambda>_. None)"

definition tag_start :: "char \<Rightarrow> bool" where
  "tag_start c = (c \<in> set ''abcdefghijklmnopqrstuvwxyz#/@'')"

definition tag_char :: "char \<Rightarrow> bool" where
  "tag_char c = (c \<noteq> CHR '']'' \<and> c \<noteq> CHR ''['')"

function markup_tags :: "nat \<Rightarrow> nat \<Rightarrow> string \<Rightarrow> (nat \<times> string) list" where
  "markup_tags pos backslashes [] = []"
| "markup_tags pos backslashes (c # rest) =
     (if c = CHR 0x5C then markup_tags (pos + 1) (backslashes + 1) rest
      else if c = CHR ''['' \<and> takeWhile tag_char rest \<noteq> []
              \<and> tag_start (hd (takeWhile tag_char rest))
              \<and> dropWhile tag_char rest \<noteq> [] \<and> hd (dropWhile tag_char rest) = CHR '']''
      then (if even backslashes then [(pos, takeWhile tag_char rest)] else [])
           @ markup_tags (pos + length (takeWhile tag_char rest) + 2) 0 (tl (dropWhile tag_char rest))
      else markup_tags (pos + 1) 0 rest)"
  by pat_completeness auto
termination
proof (relation "measure (\<lambda>(pos, backslashes, s). length s)")
  fix rest :: string
  have "length (tl (dropWhile tag_char rest)) \<le> length rest"
    by (metis diff_le_self length_dropWhile_le length_tl order_trans)
  then show "\<And>pos backslashes c.
       ((pos + length (takeWhile tag_char rest) + 2, 0, tl (dropWhile tag_char rest)),
        pos, backslashes, c # rest) \<in> measure (\<lambda>(pos, backslashes, s). length s)"
    by simp
qed simp_all

declare markup_tags.simps [simp del]

fun close_tags :: "string list \<Rightarrow> (nat \<times> string) list \<Rightarrow> string option" where
  "close_tags stack [] = None"
| "close_tags stack ((pos, t) # ts) =
     (let name = takeWhile (\<lambda>c. c \<noteq> CHR ''='') t in
      if hd name = CHR ''/'' then
        (if tl name \<noteq> [] then
           (if tl name \<in> set stack then close_tags (remove1 (tl name) stack) ts
            else Some (''closing tag '' @ [CHR 0x27] @ ''['' @ t @ '']'' @ [CHR 0x27]
                       @ '' at position '' @ str_nat pos @ '' doesn'' @ [CHR 0x27]
                       @ ''t match any open tag''))
         else (case stack of
                 [] \<Rightarrow> Some (''closing tag '' @ [CHR 0x27] @ ''[/]'' @ [CHR 0x27]
                              @ '' at position '' @ str_nat pos @ '' has nothing to close'')
               | opened # below \<Rightarrow> close_tags below ts))
      else close_tags (name # stack) ts)"

definition rich_console :: console where
  "rich_console text = map_option MarkupError (close_tags [] (markup_tags 0 0 text))"

definition broken_class :: skill_class where
  "broken_class =
     \<lparr>class_name = ''VoiceSkill'', class_skill_name = ''voice'',
      construct = (\<lambda>_. Inl (ImportError ''No module named whisper''))\<rparr>"

definition markup_class :: skill_class where
  "markup_class =
     \<lparr>class_name = ''OCRSkill'', class_skill_name = ''ocr'',
      construct = (\<lambda>_. Inl (ImportError ''library not found in [/usr/lib, /usr/local/lib]''))\<rparr>"

definition second_class :: skill_class where
  "second_class =
     \<lparr>class_name = ''SecondSkill'', class_skill_name = ''second'',
      construct = (\<lambda>_. Inr second_skill)\<rparr>"

section \<open>Social media skill: the response queue (social_skill.py)\<close>

text \<open>
  The characters outside ASCII of the string literals of the source, written as the
  bytes of their UTF-8 encoding in the source file.
\<close>

definition icon_done :: string where
  "icon_done = [CHR 0xC3, CHR 0xA2, CHR 0xC5, CHR 0x93, CHR 0xE2, CHR 0x80, CHR 0xA6]"

definition icon_pending :: string where
  "icon_pending = [CHR 0xC3, CHR 0xA2, CHR 0xC2, CHR 0xB3]"

definition icon_failed :: string where
  "icon_failed = [CHR 0xC3, CHR 0xA2, CHR 0xC5, CHR 0x92]"

definition icon_empty :: string where
  "icon_empty =
     [CHR 0xC3, CHR 0xB0, CHR 0xC5, CHR 0xB8, CHR 0xE2, CHR 0x80, CHR 0x9C, CHR 0xC2, CHR 0xAD]"

definition icon_queue :: string where
  "icon_queue =
     [CHR 0xC3, CHR 0xB0, CHR 0xC5, CHR 0xB8, CHR 0xE2, CHR 0x80, CHR 0x9C, CHR 0xE2, CHR 0x80,
      CHR 0xB9]"

record platform_info =
  platform_name :: string
  api_base :: string
  env_vars :: "string list"

definition PLATFORMS :: "(string \<times> platform_info) list" where
  "PLATFORMS =
     [(''twitter'',
       \<lparr>platform_name = ''Twitter/X'', api_base = ''https://api.twitter.com/2'',
        env_vars = [''TWITTER_BEARER_TOKEN'', ''TWITTER_API_KEY'', ''TWITTER_API_SECRET'']\<rparr>),
      (''instagram'',
       \<lparr>platform_name = ''Instagram'', api_base = ''https://graph.instagram.com'',
        env_vars = [''INSTAGRAM_ACCESS_TOKEN'', ''INSTAGRAM_BUSINESS_ID'']\<rparr>),
      (''facebook'',
       \<lparr>platform_name = ''Facebook'', api_base = ''https://graph.facebook.com/v18.0'',
        env_vars = [''FACEBOOK_ACCESS_TOKEN'', ''FACEBOOK_PAGE_ID'']\<rparr>),
      (''linkedin'',
       \<lparr>platform_name = ''LinkedIn'', api_base = ''https://api.linkedin.com/v2'',
        env_vars = [''LINKEDIN_ACCESS_TOKEN'']\<rparr>),
      (''discord'',
       \<lparr>platform_name = ''Discord'', api_base = ''https://discord.com/api/v10'',
        env_vars = [''DISCORD_BOT_TOKEN'']\<rparr>),
      (''telegram'',
       \<lparr>platform_name = ''Telegram'', api_base = ''https://api.telegram.org'',
        env_vars = [''TELEGRAM_BOT_TOKEN'']\<rparr>)]"

text \<open>
  The dicts the code builds itself, and the text an f-string prints for a value. The
  text Python prints for a float, a list or a dict is not modelled: it is a parameter of
  the world below.
\<close>

definition error_dict :: "json \<Rightarrow> json" where
  "error_dict e = JObj [(''error'', e)]"

definition success_dict :: json where
  "success_dict = JObj [(''success'', JBool True)]"

text \<open>
  The world outside the process, of a type \<open>'w\<close> of its states: whether \<open>httpx\<close> can be
  imported, \<open>os.environ.get\<close>, the POST of \<open>_make_request\<close> (URL, headers, the text and
  the id of the message replied to), the POST to the Telegram bot API (URL, chat id,
  text), and the text of \<open>repr\<close> for floats, lists and dicts. An HTTP call raises, or
  returns a status code, the text of the body and what \<open>.json()\<close> does on it: raise, or
  return a JSON value, which need not be an object.
\<close>

datatype http_result =
    HttpRaised exn
  | HttpResponse nat string "exn + json"

record 'w network =
  httpx_installed :: bool
  environ_get :: "'w \<Rightarrow> string \<Rightarrow> string option"
  client_post :: "'w \<Rightarrow> string \<Rightarrow> (string \<times> string) list \<Rightarrow> string \<Rightarrow> string \<Rightarrow> http_result \<times> 'w"
  telegram_post :: "'w \<Rightarrow> string \<Rightarrow> string \<Rightarrow> string \<Rightarrow> http_result \<times> 'w"
  py_repr :: "json \<Rightarrow> string"

definition py_str :: "'w network \<Rightarrow> json \<Rightarrow> string" where
  "py_str net v =
     (case v of
        JNull \<Rightarrow> ''None''
      | JBool b \<Rightarrow> (if b then ''True'' else ''False'')
      | JInt n \<Rightarrow> (if n < 0 then ''-'' @ str_nat (nat (- n)) else str_nat (nat n))
      | JStr s \<Rightarrow> s
      | _ \<Rightarrow> py_repr net v)"

fun credentials_loop :: "'w network \<Rightarrow> 'w \<Rightarrow> string \<Rightarrow> string list \<Rightarrow> (string \<times> string) list \<Rightarrow> (string \<times> string) list" where
  "credentials_loop net w platform [] creds = creds"
| "credentials_loop net w platform (env_var # rest) creds =
     (case environ_get net w env_var of
        None \<Rightarrow> credentials_loop net w platform rest creds
      | Some v \<Rightarrow>
          if v \<noteq> [] then
            credentials_loop net w platform rest
              (AList.update (replace (platform @ ''_'') [] (lower env_var)) v creds)
          else credentials_loop net w platform rest creds)"

definition get_credentials :: "'w network \<Rightarrow> 'w \<Rightarrow> string \<Rightarrow> (string \<times> string) list" where
  "get_credentials net w platform =
     (case map_of PLATFORMS platform of
        None \<Rightarrow> []
      | Some info \<Rightarrow> credentials_loop net w platform (env_vars info) [])"

definition get_auth_headers :: "string \<Rightarrow> (string \<times> string) list \<Rightarrow> (string \<times> string) list" where
  "get_auth_headers platform creds =
     (let headers = [(''Content-Type'', ''application/json'')] in
      if platform = ''twitter'' then
        (case map_of creds ''bearer_token'' of
           Some t \<Rightarrow> AList.update ''Authorization'' (''Bearer '' @ t) headers
         | None \<Rightarrow> headers)
      else if platform = ''discord'' then
        (case map_of creds ''bot_token'' of
           Some t \<Rightarrow> AList.update ''Authorization'' (''Bot '' @ t) headers
         | None \<Rightarrow> headers)
      else if platform = ''telegram'' then headers
      else if platform = ''instagram'' \<or> platform = ''facebook'' then headers
      else if platform = ''linkedin'' then
        (case map_of creds ''access_token'' of
           Some t \<Rightarrow> AList.update ''Authorization'' (''Bearer '' @ t) headers
         | None \<Rightarrow> headers)
      else headers)"

text \<open>
  The handlers of \<open>_make_request\<close>, whose whole body is inside \<open>try\<close>:
  \<open>except ImportError\<close> first, then \<open>except Exception\<close>; what is outside \<open>Exception\<close>
  propagates.
\<close>

definition make_request_except :: "exn \<Rightarrow> exn + json" where
  "make_request_except e =
     (case e of
        ImportError _ \<Rightarrow> Inr (error_dict (JStr ''httpx not installed. Run: pip install httpx''))
      | BaseExc _ \<Rightarrow> Inl e
      | _ \<Rightarrow> Inr (error_dict (JStr (str_exn e))))"

text \<open>
  \<open>_make_request\<close> as \<open>_send_reply\<close> calls it: method \<open>POST\<close>, with the text and the id of
  the tweet replied to as data. Below status 400 it returns \<open>response.json()\<close> as it
  is, whatever JSON value that is.
\<close>

definition make_request_post :: "'w network \<Rightarrow> 'w \<Rightarrow> string \<Rightarrow> string \<Rightarrow> string \<Rightarrow> string \<Rightarrow> (exn + json) \<times> 'w" where
  "make_request_post net w platform endpoint text in_reply_to =
     (if \<not> httpx_installed net then
        (make_request_except (ImportError (''No module named '' @ [CHR 0x27] @ ''httpx'' @ [CHR 0x27])), w)
      else
        (let creds = get_credentials net w platform in
         if creds = [] then
           (Inr (error_dict (JStr (''Platform '' @ platform @ '' not connected''))), w)
         else
           (case map_of PLATFORMS platform of
              None \<Rightarrow> (make_request_except (KeyError ([CHR 0x27] @ platform @ [CHR 0x27])), w)
            | Some info \<Rightarrow>
                (case client_post net w (api_base info @ endpoint)
                        (get_auth_headers platform creds) text in_reply_to of
                   (HttpRaised e, w') \<Rightarrow> (make_request_except e, w')
                 | (HttpResponse status_code body js, w') \<Rightarrow>
                     if status_code \<ge> 400 then
                       (Inr (JObj [(''error'', JStr (''API error: '' @ str_nat status_code)),
                                   (''detail'', JStr body)]), w')
                     else (case js of
                             Inl e \<Rightarrow> (make_request_except e, w')
                           | Inr v \<Rightarrow> (Inr v, w'))))))"

text \<open>
  \<open>_send_reply\<close>. In the Telegram branch \<open>import httpx\<close> stands outside the \<open>try\<close>, so a
  missing \<open>httpx\<close> raises \<open>ImportError\<close> there; the request and the reading of its JSON
  are inside the \<open>try\<close>, whose handler is \<open>except Exception\<close>.
\<close>

definition telegram_except :: "exn \<Rightarrow> exn + json" where
  "telegram_except e = (if is_exception e then Inr (error_dict (JStr (str_exn e))) else Inl e)"

definition telegram_reply :: "json \<Rightarrow> exn + json" where
  "telegram_reply response =
     (case py_get response ''ok'' JNull of
        Inl e \<Rightarrow> telegram_except e
      | Inr ok \<Rightarrow>
          if truthy ok then Inr success_dict
          else (case py_get response ''description'' JNull of
                  Inl e \<Rightarrow> telegram_except e
                | Inr description \<Rightarrow> Inr (error_dict description)))"

definition send_reply :: "'w network \<Rightarrow> 'w \<Rightarrow> string \<Rightarrow> string \<Rightarrow> string \<Rightarrow> (exn + json) \<times> 'w" where
  "send_reply net w platform message_id text =
     (if platform = ''twitter'' then make_request_post net w platform ''/tweets'' text message_id
      else if platform = ''telegram'' then
        (case map_of (get_credentials net w platform) ''bot_token'' of
           Some bot_token \<Rightarrow>
             if \<not> httpx_installed net then
               (Inl (ImportError (''No module named '' @ [CHR 0x27] @ ''httpx'' @ [CHR 0x27])), w)
             else
               (case telegram_post net w
                       (''https://api.telegram.org/bot'' @ bot_token @ ''/sendMessage'')
                       message_id text of
                  (HttpRaised e, w') \<Rightarrow> (telegram_except e, w')
                | (HttpResponse status_code body (Inl e), w') \<Rightarrow> (telegram_except e, w')
                | (HttpResponse status_code body (Inr response), w') \<Rightarrow>
                    (telegram_reply response, w'))
         | None \<Rightarrow> (Inr (error_dict (JStr ''Platform not supported for replies'')), w))
      else (Inr (error_dict (JStr ''Platform not supported for replies'')), w))"

record queue_item =
  item_id :: string
  item_platform :: string
  item_message_id :: string
  item_response :: string
  item_priority :: string
  item_status :: string
  item_created_at :: string

record social_skill =
  messages_cache :: "string list"
  response_queue :: "queue_item list"

definition SocialMediaSkill :: social_skill where
  "SocialMediaSkill = \<lparr>messages_cache = [], response_queue = []\<rparr>"

text \<open>
  \<open>queue_add\<close>; \<open>now\<close> is the text of \<open>datetime.now().isoformat()\<close>. The default of
  \<open>priority\<close> is \<open>normal\<close>.
\<close>

definition queue_add :: "string \<Rightarrow> string \<Rightarrow> string \<Rightarrow> string \<Rightarrow> string \<Rightarrow> social_skill \<Rightarrow> string \<times> social_skill" where
  "queue_add now platform message_id response priority s =
     (let queue_item =
            \<lparr>item_id = ''q_'' @ str_nat (length (response_queue s) + 1),
             item_platform = platform, item_message_id = message_id,
             item_response = response, item_priority = priority,
             item_status = ''pending'', item_created_at = now\<rparr>
      in (icon_done @ '' Added to queue: '' @ item_id queue_item @ [CHR 0x0A] @ ''Priority: ''
            @ priority @ [CHR 0x0A] @ ''Response: '' @ take 50 response @ ''...'',
          s\<lparr>response_queue := response_queue s @ [queue_item]\<rparr>))"

definition list_lines :: "queue_item \<Rightarrow> string list" where
  "list_lines item =
     (let status_icon = (if item_status item = ''pending'' then icon_pending else icon_done);
          plat_name = (case map_of PLATFORMS (item_platform item) of
                         Some info \<Rightarrow> platform_name info
                       | None \<Rightarrow> item_platform item)
      in [status_icon @ '' ['' @ item_id item @ ''] '' @ plat_name,
          ''   To: '' @ item_message_id item,
          ''   Response: '' @ take 60 (item_response item) @ ''...'',
          ''   Priority: '' @ item_priority item,
          []])"

definition queue_list :: "social_skill \<Rightarrow> string \<times> social_skill" where
  "queue_list s =
     (if response_queue s = [] then (icon_empty @ '' Response queue is empty'', s)
      else (join [CHR 0x0A]
              ((icon_queue @ '' Response Queue'' @ [CHR 0x0A]) # concat (map list_lines (response_queue s))),
            s))"

text \<open>
  The loop of \<open>queue_send\<close> over \<open>items_to_send\<close>. The items of that list are the dicts
  of the queue themselves, in queue order, so setting the status of one changes the
  queue; the loop is a pass over the queue that skips the items not selected. A raise of
  \<open>_send_reply\<close>, or of \<open>result.get\<close> on a result that is not a dict, ends the loop
  and \<open>queue_send\<close> with it. The loop returns the exception that ended it, if any, the
  queue as the loop left it, the count of replies sent, the error lines and the world.
\<close>

definition selected :: "string option \<Rightarrow> queue_item \<Rightarrow> bool" where
  "selected queue_id item =
     (case queue_id of
        None \<Rightarrow> True
      | Some q \<Rightarrow> if q = ''all'' then True else item_id item = q)"

text \<open>
  What the body of the loop does with the result of \<open>_send_reply\<close> for one item:
  raise, count a reply sent, or give an error line.
\<close>

datatype reply_outcome = ReplyRaised exn | ReplySent | ReplyError string

definition reply_outcome :: "'w network \<Rightarrow> queue_item \<Rightarrow> exn + json \<Rightarrow> reply_outcome" where
  "reply_outcome net item r =
     (case r of
        Inl e \<Rightarrow> ReplyRaised e
      | Inr result \<Rightarrow>
          (case py_get result ''success'' JNull of
             Inl e \<Rightarrow> ReplyRaised e
           | Inr success \<Rightarrow>
               if truthy success then ReplySent
               else (case py_get result ''error'' JNull of
                       Inl e \<Rightarrow> ReplyRaised e
                     | Inr error \<Rightarrow> ReplyError (item_id item @ '': '' @ py_str net error))))"

fun send_loop :: "'w network \<Rightarrow> string option \<Rightarrow> queue_item list \<Rightarrow> 'w \<Rightarrow> exn option \<times> queue_item list \<times> nat \<times> string list \<times> 'w" where
  "send_loop net queue_id [] w = (None, [], 0, [], w)"
| "send_loop net queue_id (item # rest) w =
     (if \<not> selected queue_id item then
        (case send_loop net queue_id rest w of
           (e, q, sent, errors, w') \<Rightarrow> (e, item # q, sent, errors, w'))
      else if item_status item \<noteq> ''pending'' then
        (case send_loop net queue_id rest w of
           (e, q, sent, errors, w') \<Rightarrow> (e, item # q, sent, errors, w'))
      else
        (case send_reply net w (item_platform item) (item_message_id item) (item_response item) of
           (r, w1) \<Rightarrow>
             (case reply_outcome net item r of
                ReplyRaised e \<Rightarrow> (Some e, item # rest, 0, [], w1)
              | ReplySent \<Rightarrow>
                  (case send_loop net queue_id rest w1 of
                     (e, q, sent, errors, w') \<Rightarrow>
                       (e, item\<lparr>item_status := ''sent''\<rparr> # q, sent + 1, errors, w'))
              | ReplyError line \<Rightarrow>
                  (case send_loop net queue_id rest w1 of
                     (e, q, sent, errors, w') \<Rightarrow> (e, item # q, sent, line # errors, w')))))"

definition queue_send :: "'w network \<Rightarrow> string option \<Rightarrow> 'w \<Rightarrow> social_skill \<Rightarrow> (exn + string) \<times> 'w \<times> social_skill" where
  "queue_send net queue_id w s =
     (if response_queue s = [] then (Inr ''Queue is empty'', w, s)
      else
        (case send_loop net queue_id (response_queue s) w of
           (Some e, q, sent, errors, w') \<Rightarrow> (Inl e, w', s\<lparr>response_queue := q\<rparr>)
         | (None, q, sent, errors, w') \<Rightarrow>
             (Inr (icon_done @ '' Sent: '' @ str_nat sent @ '' responses''
                   @ (if errors \<noteq> [] then
                        [CHR 0x0A] @ icon_failed @ '' Errors:'' @ [CHR 0x0A] @ join [CHR 0x0A] errors
                      else [])),
              w', s\<lparr>response_queue := filter (\<lambda>item. item_status item = ''pending'') q\<rparr>)))"

text \<open>
  The three public queue operations as calls, and a run of calls on a new skill. A call
  that raises leaves the skill as it is at the raise, and the run goes on with the next
  call, as a caller that catches the exception would. \<open>calls_complete\<close> says that no
  call of the run raises.
\<close>

datatype queue_call =
    QueueAdd string string string string string
  | QueueList
  | QueueSend "string option"

fun apply_queue_call :: "'w network \<Rightarrow> 'w \<times> social_skill \<Rightarrow> queue_call \<Rightarrow> (exn + string) \<times> 'w \<times> social_skill" where
  "apply_queue_call net (w, s) (QueueAdd now platform message_id response priority) =
     (case queue_add now platform message_id response priority s of
        (text, s') \<Rightarrow> (Inr text, w, s'))"
| "apply_queue_call net (w, s) QueueList =
     (case queue_list s of (text, s') \<Rightarrow> (Inr text, w, s'))"
| "apply_queue_call net (w, s) (QueueSend queue_id) = queue_send net queue_id w s"

definition queue_calls :: "'w network \<Rightarrow> 'w \<Rightarrow> queue_call list \<Rightarrow> 'w \<times> social_skill" where
  "queue_calls net w cs =
     foldl (\<lambda>ws c. snd (apply_queue_call net ws c)) (w, SocialMediaSkill) cs"

fun calls_complete :: "'w network \<Rightarrow> 'w \<times> social_skill \<Rightarrow> queue_call list \<Rightarrow> bool" where
  "calls_complete net ws [] = True"
| "calls_complete net ws (c # cs) =
     (case apply_queue_call net ws c of
        (Inl e, ws') \<Rightarrow> False
      | (Inr text, ws') \<Rightarrow> calls_complete net ws' cs)"

definition all_pending :: "queue_item list \<Rightarrow> bool" where
  "all_pending q = list_all (\<lambda>item. item_status item = ''pending'') q"

subsection \<open>Fixtures\<close>

text \<open>
  A world in which \<open>httpx\<close> is installed and a Telegram bot token is set; the Telegram
  API accepts a message to chat 42 and refuses every other chat. In \<open>array_net\<close> a
  Twitter bearer token is set as well, and the Twitter API answers with status 200 and a
  JSON array as body.
\<close>

definition telegram_answer :: "string \<Rightarrow> json" where
  "telegram_answer chat_id =
     (if chat_id = ''42'' then JObj [(''ok'', JBool True)]
      else JObj [(''ok'', JBool False), (''description'', JStr ''chat not found'')])"

definition tg_net :: "unit network" where
  "tg_net =
     \<lparr>httpx_installed = True,
      environ_get = (\<lambda>_ v. if v = ''TELEGRAM_BOT_TOKEN'' then Some ''T0K'' else None),
      client_post = (\<lambda>w _ _ _ _. (HttpRaised (OtherException ''unreachable''), w)),
      telegram_post = (\<lambda>w _ chat_id _. (HttpResponse 200 [] (Inr (telegram_answer chat_id)), w)),
      py_repr = (\<lambda>_. [])\<rparr>"

definition array_net :: "unit network" where
  "array_net =
     \<lparr>httpx_installed = True,
      environ_get = (\<lambda>_ v. if v = ''TELEGRAM_BOT_TOKEN'' then Some ''T0K''
                           else if v = ''TWITTER_BEARER_TOKEN'' then Some ''B0K'' else None),
      client_post = (\<lambda>w _ _ _ _. (HttpResponse 200 ''[]'' (Inr (JList [])), w)),
      telegram_post = (\<lambda>w _ chat_id _. (HttpResponse 200 [] (Inr (telegram_answer chat_id)), w)),
      py_repr = (\<lambda>_. [])\<rparr>"

definition sent_item :: queue_item where
  "sent_item =
     \<lparr>item_id = ''q_1'', item_platform = ''telegram'', item_message_id = ''42'',
      item_response = ''hello'', item_priority = ''normal'', item_status = ''sent'',
      item_created_at = ''2024-01-01T00:00:00''\<rparr>"

definition two_replies :: "queue_call list" where
  "two_replies =
     [QueueAdd ''2024-01-01T00:00:00'' ''telegram'' ''42'' ''hello'' ''normal'',
      QueueAdd ''2024-01-01T00:00:01'' ''telegram'' ''43'' ''bye'' ''high'']"

definition reply_and_tweet :: "queue_call list" where
  "reply_and_tweet =
     [QueueAdd ''2024-01-01T00:00:00'' ''telegram'' ''42'' ''hello'' ''normal'',
      QueueAdd ''2024-01-01T00:00:01'' ''twitter'' ''1001'' ''thanks'' ''normal'']"

section \<open>HubLab skill: capsule search (hublab_skill.py)\<close>

text \<open>
  What \<open>_load_capsules\<close> and the search find outside the process: the value of
  \<open>HUBLAB_PATH\<close>; Python's \<open>str.lower\<close>, which knows all of Unicode and is not
  modelled; what \<open>metadata_path.exists()\<close> does (it returns a truth value, or raises, as
  \<open>pathlib\<close> does on a path that is too long or not accessible); what opening and
  parsing the metadata file does (raise, or return the JSON value of the file); and what
  the API request and the parsing of its answer do (raise, or return a JSON value).
\<close>

record catalog =
  hublab_path :: string
  str_lower :: "string \<Rightarrow> string"
  path_exists :: "exn + bool"
  read_metadata :: "exn + json"
  fetch_api :: "exn + json"

text \<open>The cache holds the catalog once loaded; \<open>JNull\<close> is Python's \<open>None\<close>.\<close>

record hublab_skill =
  capsules_cache :: json

definition HubLabSkill :: hublab_skill where
  "HubLabSkill = \<lparr>capsules_cache = JNull\<rparr>"

text \<open>
  The fallback of \<open>_load_capsules\<close> to the API: the whole of it is inside \<open>try\<close> with
  \<open>except Exception: return []\<close>, which also catches the \<open>AttributeError\<close> of
  \<open>data.get\<close> on an answer that is not an object.
\<close>

definition load_from_api :: "catalog \<Rightarrow> hublab_skill \<Rightarrow> (exn + json) \<times> hublab_skill" where
  "load_from_api env s =
     (case fetch_api env of
        Inl e \<Rightarrow> if is_exception e then (Inr (JList []), s) else (Inl e, s)
      | Inr data \<Rightarrow>
          (case py_get data ''capsules'' (JList []) of
             Inl e \<Rightarrow> (Inr (JList []), s)
           | Inr capsules \<Rightarrow> (Inr capsules, s\<lparr>capsules_cache := capsules\<rparr>)))"

text \<open>
  \<open>_load_capsules\<close>. The test \<open>metadata_path.exists()\<close> stands outside the \<open>try\<close>, so
  a raise of it leaves the function; the reading of the file is inside a \<open>try\<close> with
  \<open>except Exception: pass\<close>.
\<close>

definition load_capsules :: "catalog \<Rightarrow> hublab_skill \<Rightarrow> (exn + json) \<times> hublab_skill" where
  "load_capsules env s =
     (if capsules_cache s \<noteq> JNull then (Inr (capsules_cache s), s)
      else
        (case path_exists env of
           Inl e \<Rightarrow> (Inl e, s)
         | Inr exists \<Rightarrow>
             if exists then
               (case read_metadata env of
                  Inr loaded \<Rightarrow> (Inr loaded, s\<lparr>capsules_cache := loaded\<rparr>)
                | Inl e \<Rightarrow> if is_exception e then load_from_api env s else (Inl e, s))
             else load_from_api env s))"

text \<open>
  \<open>v.lower()\<close>: only a string has it. \<open>capsule.get(key, "").lower()\<close> is \<open>get_lower\<close>,
  and \<open>[t.lower() for t in ts]\<close> is \<open>lower_all\<close>.
\<close>

definition py_lower :: "catalog \<Rightarrow> json \<Rightarrow> exn + string" where
  "py_lower env v =
     (case v of
        JStr s \<Rightarrow> Inr (str_lower env s)
      | _ \<Rightarrow> Inl (no_attribute v ''lower''))"

definition get_lower :: "catalog \<Rightarrow> json \<Rightarrow> string \<Rightarrow> exn + string" where
  "get_lower env capsule key = bind_exn (py_get capsule key (JStr [])) (py_lower env)"

fun lower_all :: "catalog \<Rightarrow> json list \<Rightarrow> exn + string list" where
  "lower_all env [] = Inr []"
| "lower_all env (t # ts) =
     bind_exn (py_lower env t) (\<lambda>l. bind_exn (lower_all env ts) (\<lambda>ls. Inr (l # ls)))"

text \<open>
  \<open>_match_score\<close>: \<open>query in name\<close> on strings is the substring test, \<open>query in tags\<close>
  is membership in the list, \<open>name.startswith(query)\<close> the prefix test. The fields are
  read in the order of the source, so the first read that raises decides the exception.
\<close>

definition score_of :: "string \<Rightarrow> string \<Rightarrow> string \<Rightarrow> string list \<Rightarrow> string \<Rightarrow> string \<Rightarrow> int" where
  "score_of query cid name tags desc cat =
     (let score = 0;
          score = (if cid = query then score + 100 else score);
          score = (if sublist query name then score + 50 else score);
          score = (if prefix query name then score + 30 else score);
          score = (if query \<in> set tags then score + 40 else score);
          score = foldl (\<lambda>score tag. if sublist query tag then score + 10 else score) score tags;
          score = (if sublist query desc then score + 20 else score);
          score = (if sublist query cat then score + 15 else score)
      in score)"

definition match_score :: "catalog \<Rightarrow> json \<Rightarrow> string \<Rightarrow> exn + int" where
  "match_score env capsule query0 =
     (let query = str_lower env query0 in
      bind_exn (get_lower env capsule ''id'') (\<lambda>cid.
      bind_exn (get_lower env capsule ''name'') (\<lambda>name.
      bind_exn (py_get capsule ''tags'' (JList [])) (\<lambda>tags_value.
      bind_exn (py_iter tags_value) (\<lambda>ts.
      bind_exn (lower_all env ts) (\<lambda>tags.
      bind_exn (get_lower env capsule ''description'') (\<lambda>desc.
      bind_exn (get_lower env capsule ''category'') (\<lambda>cat.
        Inr (score_of query cid name tags desc cat)))))))))"

text \<open>
  The JSON text \<open>hublab_search\<close> returns, as the object it serialises: the error object,
  or the result object with its list of results.
\<close>

record search_result =
  res_id :: json
  res_name :: json
  res_category :: json
  res_description :: json
  res_tags :: json
  res_score :: int

datatype search_output =
    SearchError string string
  | SearchResults string "string option" nat nat "search_result list"

text \<open>
  \<open>xs[:stop]\<close> for an integer \<open>stop\<close>: a negative \<open>stop\<close> counts from the end. On a
  JSON value, a string and a list can be sliced; a dict raises (\<open>TypeError\<close> up to
  Python 3.11, where a slice cannot be hashed, which is what is written here;
  \<open>KeyError\<close> from 3.12 on) and the other values cannot be subscripted.
\<close>

definition slice_to :: "int \<Rightarrow> 'a list \<Rightarrow> 'a list" where
  "slice_to stop xs =
     (if stop < 0 then take (nat (int (length xs) + stop)) xs else take (nat stop) xs)"

definition py_slice_to :: "int \<Rightarrow> json \<Rightarrow> exn + json" where
  "py_slice_to stop v =
     (case v of
        JStr s \<Rightarrow> Inr (JStr (slice_to stop s))
      | JList xs \<Rightarrow> Inr (JList (slice_to stop xs))
      | JObj kvs \<Rightarrow> Inl (TypeError (''unhashable type: '' @ [CHR 0x27] @ ''slice'' @ [CHR 0x27]))
      | _ \<Rightarrow> Inl (TypeError ([CHR 0x27] @ type_name v @ [CHR 0x27] @ '' object is not subscriptable'')))"

definition py_len :: "json \<Rightarrow> exn + nat" where
  "py_len v =
     (case v of
        JStr s \<Rightarrow> Inr (length s)
      | JList xs \<Rightarrow> Inr (length xs)
      | JObj kvs \<Rightarrow> Inr (length kvs)
      | _ \<Rightarrow> Inl (TypeError (''object of type '' @ [CHR 0x27] @ type_name v @ [CHR 0x27] @ '' has no len()'')))"

text \<open>
  The category filter: \<open>if category:\<close> holds of a string that is not empty, and the
  list comprehension iterates the catalog and reads the category of each element.
\<close>

fun keep_category :: "catalog \<Rightarrow> string \<Rightarrow> json list \<Rightarrow> exn + json list" where
  "keep_category env category [] = Inr []"
| "keep_category env category (c # cs) =
     bind_exn (get_lower env c ''category'') (\<lambda>cat.
     bind_exn (keep_category env category cs) (\<lambda>rest.
       Inr (if cat = str_lower env category then c # rest else rest)))"

definition filter_category :: "catalog \<Rightarrow> string option \<Rightarrow> json \<Rightarrow> exn + json" where
  "filter_category env category capsules =
     (case category of
        None \<Rightarrow> Inr capsules
      | Some cat \<Rightarrow>
          if cat \<noteq> [] then
            bind_exn (py_iter capsules) (\<lambda>cs.
            bind_exn (keep_category env cat cs) (\<lambda>kept. Inr (JList kept)))
          else Inr capsules)"

text \<open>The scoring loop: a capsule is kept, with its score, when the score is positive.\<close>

fun score_all :: "catalog \<Rightarrow> string \<Rightarrow> json list \<Rightarrow> exn + (int \<times> json) list" where
  "score_all env query [] = Inr []"
| "score_all env query (cap # caps) =
     bind_exn (match_score env cap query) (\<lambda>score.
     bind_exn (score_all env query caps) (\<lambda>rest.
       Inr (if score > 0 then (score, cap) # rest else rest)))"

text \<open>
  \<open>scored.sort(key=lambda x: x[0], reverse=True)\<close> is a stable sort by descending score:
  pairs of equal score keep their order, which a stable ascending sort by the negated
  score gives.
\<close>

definition sort_by_score :: "(int \<times> json) list \<Rightarrow> (int \<times> json) list" where
  "sort_by_score scored = sort_key (\<lambda>x. - fst x) scored"

definition to_result :: "int \<times> json \<Rightarrow> exn + search_result" where
  "to_result x =
     (case x of (score, cap) \<Rightarrow>
        bind_exn (py_get cap ''id'' JNull) (\<lambda>i.
        bind_exn (py_get cap ''name'' JNull) (\<lambda>n.
        bind_exn (py_get cap ''category'' JNull) (\<lambda>c.
        bind_exn (bind_exn (py_get cap ''description'' (JStr [])) (py_slice_to 150)) (\<lambda>d.
        bind_exn (bind_exn (py_get cap ''tags'' (JList [])) (py_slice_to 5)) (\<lambda>t.
          Inr \<lparr>res_id = i, res_name = n, res_category = c, res_description = d,
               res_tags = t, res_score = score\<rparr>))))))"

fun build_results :: "(int \<times> json) list \<Rightarrow> exn + search_result list" where
  "build_results [] = Inr []"
| "build_results (x # xs) =
     bind_exn (to_result x) (\<lambda>r. bind_exn (build_results xs) (\<lambda>rs. Inr (r # rs)))"

text \<open>
  \<open>hublab_search\<close>. \<open>if not capsules\<close> is Python's truth test on whatever was loaded.
  The skill is returned as \<open>_load_capsules\<close> left it, also when the search raises.
\<close>

definition hublab_search :: "catalog \<Rightarrow> hublab_skill \<Rightarrow> string \<Rightarrow> string option \<Rightarrow> int \<Rightarrow> (exn + search_output) \<times> hublab_skill" where
  "hublab_search env s query category limit =
     (case load_capsules env s of
        (Inl e, s') \<Rightarrow> (Inl e, s')
      | (Inr capsules, s') \<Rightarrow>
          if \<not> truthy capsules then
            (Inr (SearchError ''Could not load capsules. Check HUBLAB_PATH or API.''
                    (''Set HUBLAB_PATH env var (current: '' @ hublab_path env @ '')'')), s')
          else
            (bind_exn (filter_category env category capsules) (\<lambda>capsules.
             bind_exn (py_iter capsules) (\<lambda>caps.
             bind_exn (score_all env query caps) (\<lambda>scored.
             bind_exn (build_results (slice_to limit (sort_by_score scored))) (\<lambda>results.
             bind_exn (py_len capsules) (\<lambda>total_searched.
               Inr (SearchResults query category (length results) total_searched results)))))),
             s'))"

definition results_of :: "search_output \<Rightarrow> search_result list" where
  "results_of out = (case out of SearchError _ _ \<Rightarrow> [] | SearchResults _ _ _ _ rs \<Rightarrow> rs)"

text \<open>
  The two ways the loader is written to survive: the metadata file is reported absent,
  or reading it raises an \<open>Exception\<close>; and the API request raises an \<open>Exception\<close>.
\<close>

definition file_unavailable :: "catalog \<Rightarrow> bool" where
  "file_unavailable env =
     (case path_exists env of
        Inl e \<Rightarrow> False
      | Inr exists \<Rightarrow>
          if exists then (case read_metadata env of Inl e \<Rightarrow> is_exception e | Inr v \<Rightarrow> False)
          else True)"

definition api_unavailable :: "catalog \<Rightarrow> bool" where
  "api_unavailable env = (case fetch_api env of Inl e \<Rightarrow> is_exception e | Inr v \<Rightarrow> False)"

subsection \<open>Fixtures\<close>

definition button_capsule :: "string \<Rightarrow> string \<Rightarrow> json" where
  "button_capsule i n =
     JObj [(''id'', JStr i), (''name'', JStr n), (''tags'', JList [JStr ''ui'']),
           (''description'', JStr ''A clickable control''), (''category'', JStr ''UI'')]"

definition local_catalog :: catalog where
  "local_catalog =
     \<lparr>hublab_path = ''/Users/c/hublab'', str_lower = lower, path_exists = Inr True,
      read_metadata =
        Inr (JList [button_capsule ''card'' ''Card'',
                    button_capsule ''icon-button'' ''Icon Button'',
                    button_capsule ''button'' ''Button'',
                    button_capsule ''button-group'' ''Button Group'']),
      fetch_api = Inl (OSError ''Network is unreachable'')\<rparr>"

definition no_catalog :: catalog where
  "no_catalog =
     \<lparr>hublab_path = ''/Users/c/hublab'', str_lower = lower, path_exists = Inr False,
      read_metadata = Inl (OSError ''No such file or directory''),
      fetch_api = Inl (OSError ''Network is unreachable'')\<rparr>"

section \<open>Token usage tracker\<close>

text \<open>
  Modelled from the spec: \<open>TokenTracker\<close> lives in \<open>r_cli/core/logging.py\<close>, which is
  not among the sources; only its tests (\<open>TestTokenTracker\<close>) are. The spec describes
  four cumulative counters (prompt tokens, completion tokens, total tokens, request
  count), all zero on a new tracker. Python integers are unbounded, hence \<open>int\<close>.
\<close>

record token_tracker =
  total_prompt_tokens :: int
  total_completion_tokens :: int
  total_tokens :: int
  total_requests :: int

definition TokenTracker :: token_tracker where
  "TokenTracker =
     \<lparr>total_prompt_tokens = 0, total_completion_tokens = 0, total_tokens = 0,
      total_requests = 0\<rparr>"

text \<open>
  Modelled from the spec: \<open>TokenTracker.record(prompt_tokens, completion_tokens)\<close>,
  which is not among the sources, adds the tokens of one completed call to the
  cumulative counters and counts the request.
\<close>

definition tracker_record :: "int \<Rightarrow> int \<Rightarrow> token_tracker \<Rightarrow> token_tracker" where
  "tracker_record prompt_tokens completion_tokens t =
     t\<lparr>total_prompt_tokens := total_prompt_tokens t + prompt_tokens,
       total_completion_tokens := total_completion_tokens t + completion_tokens,
       total_tokens := total_tokens t + (prompt_tokens + completion_tokens),
       total_requests := total_requests t + 1\<rparr>"

text \<open>
  Modelled from the spec: \<open>TokenTracker.reset()\<close>, which is not among the sources, puts
  every counter back to zero.
\<close>

definition tracker_reset :: "token_tracker \<Rightarrow> token_tracker" where
  "tracker_reset t = TokenTracker"

section \<open>LLM client: conversation history\<close>

text \<open>
  Modelled from the spec: \<open>LLMClient\<close>, \<open>Message\<close> and \<open>ToolCall\<close> live in
  \<open>r_cli/core/llm.py\<close>, which is not among the sources; only their tests are. The spec
  gives a message a role (one of system, user, assistant, tool), an optional text, an
  optional sequence of tool calls and an optional tool-call id and name, and the client an
  ordered history that starts empty. \<open>set_system_prompt\<close> replaces or inserts the
  leading system message, \<open>add_message\<close> appends to the history, and \<open>clear_history\<close>
  drops all messages except the leading system message.
\<close>

datatype role = System | User | Assistant | ToolRole

record tool_call =
  call_id :: string
  call_name :: string
  call_arguments :: "(string \<times> string) list"

record message =
  msg_role :: role
  msg_content :: "string option"
  msg_tool_calls :: "tool_call list"
  msg_tool_call_id :: "string option"
  msg_name :: "string option"

definition Message :: "role \<Rightarrow> string \<Rightarrow> message" where
  "Message r text =
     \<lparr>msg_role = r, msg_content = Some text, msg_tool_calls = [], msg_tool_call_id = None,
      msg_name = None\<rparr>"

record llm_client =
  messages :: "message list"
  token_tracker :: token_tracker

definition LLMClient :: llm_client where
  "LLMClient = \<lparr>messages = [], token_tracker = TokenTracker\<rparr>"

text \<open>
  A system prompt is set when the history starts with a system message.
\<close>

definition has_system_prompt :: "llm_client \<Rightarrow> bool" where
  "has_system_prompt c =
     (case messages c of [] \<Rightarrow> False | m # _ \<Rightarrow> msg_role m = System)"

text \<open>
  Modelled from the spec: \<open>LLMClient.set_system_prompt(text)\<close>, which is not among the
  sources, replaces the leading system message, or inserts one when there is none.
\<close>

definition set_system_prompt :: "string \<Rightarrow> llm_client \<Rightarrow> llm_client" where
  "set_system_prompt text c =
     (if has_system_prompt c then c\<lparr>messages := Message System text # tl (messages c)\<rparr>
      else c\<lparr>messages := Message System text # messages c\<rparr>)"

text \<open>
  Modelled from the spec: \<open>LLMClient.add_message(role, content)\<close>, which is not among
  the sources, appends a message to the history.
\<close>

definition add_message :: "role \<Rightarrow> string \<Rightarrow> llm_client \<Rightarrow> llm_client" where
  "add_message r text c = c\<lparr>messages := messages c @ [Message r text]\<rparr>"

text \<open>
  Modelled from the spec: \<open>LLMClient.clear_history()\<close>, which is not among the
  sources, drops all messages except the leading system message.
\<close>

definition clear_history :: "llm_client \<Rightarrow> llm_client" where
  "clear_history c =
     (if has_system_prompt c then c\<lparr>messages := [hd (messages c)]\<rparr>
      else c\<lparr>messages := []\<rparr>)"

text \<open>A sequence of \<open>add_message\<close> calls, each with its role and text.\<close>

fun add_messages :: "(role \<times> string) list \<Rightarrow> llm_client \<Rightarrow> llm_client" where
  "add_messages [] c = c"
| "add_messages ((r, text) # rest) c = add_messages rest (add_message r text c)"

section \<open>Retry with exponential backoff\<close>

text \<open>
  Modelled from the spec: \<open>with_retry\<close> and \<open>is_retriable\<close> live in
  \<open>r_cli/core/llm.py\<close> and \<open>r_cli/core/exceptions.py\<close>, which are not among the
  sources; only their tests are. The spec classifies a failure of the wrapped operation
  as retriable (connection failure, timeout, rate limiting) or fatal (malformed input,
  authentication, input validation). A retriable failure triggers up to \<open>max_retries\<close>
  further attempts, after a delay of \<open>initial_delay * 2^attempt\<close>, capped when a cap is
  given; a fatal failure propagates at once; after the last allowed attempt the
  retriable failure is wrapped into a connection error that carries the backend name and
  the endpoint. Delays are rational numbers. The operation takes no argument and has
  effects, so it is a function on a state \<open>'s\<close>.
\<close>

datatype failure =
    ConnectionFailure string
  | TimeoutFailure string
  | RateLimited string
  | MalformedInput string
  | AuthenticationFailure string
  | InputValidation string

text \<open>
  Modelled from the spec: \<open>is_retriable\<close>, which is not among the sources, holds of
  connection failures, timeouts and rate limiting, and of no other failure.
\<close>

fun is_retriable :: "failure \<Rightarrow> bool" where
  "is_retriable (ConnectionFailure _) = True"
| "is_retriable (TimeoutFailure _) = True"
| "is_retriable (RateLimited _) = True"
| "is_retriable (MalformedInput _) = False"
| "is_retriable (AuthenticationFailure _) = False"
| "is_retriable (InputValidation _) = False"

datatype raised =
    Propagated failure
  | LLMConnectionError string string failure

record retry_config =
  max_retries :: nat
  initial_delay :: rat
  max_delay :: "rat option"
  backend :: string
  endpoint :: string

text \<open>
  Modelled from the spec: the delay before the retry that follows attempt number
  \<open>attempt\<close> (counted from 0) is \<open>initial_delay * 2^attempt\<close>, capped by \<open>max_delay\<close>
  when one is given. The code that computes it is not among the sources.
\<close>

definition backoff :: "retry_config \<Rightarrow> nat \<Rightarrow> rat" where
  "backoff cfg attempt =
     (let delay = initial_delay cfg * 2 ^ attempt
      in case max_delay cfg of None \<Rightarrow> delay | Some cap \<Rightarrow> min delay cap)"

text \<open>
  Modelled from the spec: the loop of \<open>with_retry\<close>, which is not among the sources,
  from attempt number \<open>attempt\<close> with \<open>left\<close> retries left. It returns the
  outcome, the number of times it invoked the operation, the delays it slept and the
  state the operation left.
\<close>

fun retry_loop :: "retry_config \<Rightarrow> ('s \<Rightarrow> (failure + 'a) \<times> 's) \<Rightarrow> nat \<Rightarrow> nat \<Rightarrow> 's \<Rightarrow> (raised + 'a) \<times> nat \<times> rat list \<times> 's" where
  "retry_loop cfg operation attempt 0 s =
     (case operation s of
        (Inr v, s') \<Rightarrow> (Inr v, 1, [], s')
      | (Inl e, s') \<Rightarrow>
          if is_retriable e then (Inl (LLMConnectionError (backend cfg) (endpoint cfg) e), 1, [], s')
          else (Inl (Propagated e), 1, [], s'))"
| "retry_loop cfg operation attempt (Suc left) s =
     (case operation s of
        (Inr v, s') \<Rightarrow> (Inr v, 1, [], s')
      | (Inl e, s') \<Rightarrow>
          if is_retriable e then
            (case retry_loop cfg operation (attempt + 1) left s' of
               (r, invocations, delays, s'') \<Rightarrow>
                 (r, invocations + 1, backoff cfg attempt # delays, s''))
          else (Inl (Propagated e), 1, [], s'))"

text \<open>
  Modelled from the spec: \<open>with_retry\<close>, which is not among the sources, runs the
  operation with \<open>max_retries\<close> retries allowed, starting at attempt 0.
\<close>

definition with_retry :: "retry_config \<Rightarrow> ('s \<Rightarrow> (failure + 'a) \<times> 's) \<Rightarrow> 's \<Rightarrow> (raised + 'a) \<times> nat \<times> rat list \<times> 's" where
  "with_retry cfg operation s = retry_loop cfg operation 0 (max_retries cfg) s"

text \<open>
  An operation that, run from state \<open>s\<close>, fails \<open>n\<close> times with a retriable failure and
  then returns \<open>v\<close>.
\<close>

fun fails_then_succeeds :: "('s \<Rightarrow> (failure + 'a) \<times> 's) \<Rightarrow> 's \<Rightarrow> nat \<Rightarrow> 'a \<Rightarrow> bool" where
  "fails_then_succeeds operation s 0 v = (fst (operation s) = Inr v)"
| "fails_then_succeeds operation s (Suc n) v =
     (case fst (operation s) of
        Inl e \<Rightarrow> is_retriable e \<and> fails_then_succeeds operation (snd (operation s)) n v
      | Inr _ \<Rightarrow> False)"

subsection \<open>Fixtures\<close>

text \<open>
  The operations of \<open>TestRetryLogic\<close>: the state is the call counter. \<open>flaky_func\<close>
  raises a connection error on its first two calls; \<open>value_error_func\<close> always raises an
  error that is not retriable.
\<close>

definition flaky_func :: "nat \<Rightarrow> (failure + string) \<times> nat" where
  "flaky_func call_count =
     (if call_count + 1 < 3 then (Inl (ConnectionFailure ''Connection error.''), call_count + 1)
      else (Inr ''success'', call_count + 1))"

definition value_error_func :: "nat \<Rightarrow> (failure + string) \<times> nat" where
  "value_error_func call_count = (Inl (MalformedInput ''Not retriable''), call_count + 1)"

definition retry_twice :: retry_config where
  "retry_twice =
     \<lparr>max_retries = 2, initial_delay = 1 / 100, max_delay = None, backend = ''ollama'',
      endpoint = ''http://localhost:11434''\<rparr>"

section \<open>Properties of the agent\<close>

subsection \<open>Order of the memory calls in a turn\<close>

text \<open>
  What \<open>run\<close> does in terms of its collaborators, without tools and with tools.
\<close>

lemma run_with_chat:
  assumes "tools a = []"
  shows "run io a u =
    (case chat io (llm a) (turn_prompt io a u) of
       (Inl e, l) \<Rightarrow>
         (Inl e,
          a\<lparr>llm := l,
            agent_memory := (agent_memory a)\<lparr>short_term := turn_buffer a u\<rparr>,
            calls := calls a @ [AddShortTerm u ''user_input'',
              GetRelevantContext u (turn_buffer a u), Chat (turn_prompt io a u)]\<rparr>)
     | (Inr c, l) \<Rightarrow>
         (Inr (content_or_empty c),
          a\<lparr>llm := l,
            agent_memory := (agent_memory a)
              \<lparr>short_term := turn_buffer a u @
                 [\<lparr>entry_type = ''agent_response'', content = content_or_empty c\<rparr>],
               session_store := Some (turn_buffer a u @
                 [\<lparr>entry_type = ''agent_response'', content = content_or_empty c\<rparr>])\<rparr>,
            calls := calls a @ [AddShortTerm u ''user_input'',
              GetRelevantContext u (turn_buffer a u), Chat (turn_prompt io a u),
              AddShortTerm (content_or_empty c) ''agent_response'', SaveSession]\<rparr>))"
  using assms
  by (simp add: run_def Let_def add_short_term_def save_session_def turn_buffer_def
      turn_prompt_def split: prod.splits sum.splits)

lemma run_with_tools:
  assumes "tools a \<noteq> []"
  shows "run io a u =
    (case chat_with_tools io (llm a) (turn_prompt io a u) (tools a) of
       (Inl e, l) \<Rightarrow>
         (Inl e,
          a\<lparr>llm := l,
            agent_memory := (agent_memory a)\<lparr>short_term := turn_buffer a u\<rparr>,
            calls := calls a @ [AddShortTerm u ''user_input'',
              GetRelevantContext u (turn_buffer a u),
              ChatWithTools (turn_prompt io a u) (map tool_name (tools a))]\<rparr>)
     | (Inr r, l) \<Rightarrow>
         (Inr r,
          a\<lparr>llm := l,
            agent_memory := (agent_memory a)
              \<lparr>short_term := turn_buffer a u @ [\<lparr>entry_type = ''agent_response'', content = r\<rparr>],
               session_store := Some (turn_buffer a u @
                 [\<lparr>entry_type = ''agent_response'', content = r\<rparr>])\<rparr>,
            calls := calls a @ [AddShortTerm u ''user_input'',
              GetRelevantContext u (turn_buffer a u),
              ChatWithTools (turn_prompt io a u) (map tool_name (tools a)),
              AddShortTerm r ''agent_response'', SaveSession]\<rparr>))"
  using assms
  by (simp add: run_def Let_def add_short_term_def save_session_def turn_buffer_def
      turn_prompt_def split: prod.splits sum.splits)

text \<open>
  C1 (as amended). In \<open>Agent.run\<close> the user input is appended to memory first, before
  the context fetch: the fetch is \<open>get_relevant_context\<close> on the old buffer followed by
  the entry of the current input, the prompt sent to the LLM is built from the context
  fetched on that buffer,
  and the result and the client state of the turn are those of that one LLM call. Only
  the response is appended after the LLM call has returned, and then the buffer is saved
  as the session. When the LLM call raises, the buffer has gained the user input alone
  and nothing is saved.
\<close>

theorem run_memory_order:
  "turn_prompt io a u =
     augment u (get_relevant_context io
       (short_term (agent_memory a) @ [\<lparr>entry_type = ''user_input'', content = u\<rparr>]) u)
   \<and> take 2 (calls_of_run io a u) =
     [AddShortTerm u ''user_input'', GetRelevantContext u (turn_buffer a u)]
   \<and> calls_of_run io a u ! 2 =
       (if tools a = [] then Chat (turn_prompt io a u)
        else ChatWithTools (turn_prompt io a u) (map tool_name (tools a)))
   \<and> fst (run io a u) =
       (if tools a = [] then
          map_sum id content_or_empty (fst (chat io (llm a) (turn_prompt io a u)))
        else fst (chat_with_tools io (llm a) (turn_prompt io a u) (tools a)))
   \<and> llm (snd (run io a u)) =
       (if tools a = [] then snd (chat io (llm a) (turn_prompt io a u))
        else snd (chat_with_tools io (llm a) (turn_prompt io a u) (tools a)))
   \<and> (case fst (run io a u) of
        Inl e \<Rightarrow>
          agent_memory (snd (run io a u)) = (agent_memory a)\<lparr>short_term := turn_buffer a u\<rparr>
          \<and> length (calls_of_run io a u) = 3
      | Inr r \<Rightarrow>
          agent_memory (snd (run io a u)) =
            (agent_memory a)
              \<lparr>short_term := turn_buffer a u @ [\<lparr>entry_type = ''agent_response'', content = r\<rparr>],
               session_store := Some (turn_buffer a u @
                 [\<lparr>entry_type = ''agent_response'', content = r\<rparr>])\<rparr>
          \<and> drop 3 (calls_of_run io a u) = [AddShortTerm r ''agent_response'', SaveSession])
   \<and> take (length (calls a)) (calls (snd (run io a u))) = calls a
   \<and> skills (snd (run io a u)) = skills a \<and> tools (snd (run io a u)) = tools a
   \<and> agent_config (snd (run io a u)) = agent_config a
   \<and> printed (snd (run io a u)) = printed a"
  (is "?fetch \<and> ?turn")
proof -
  have fetch: ?fetch by (simp add: turn_prompt_def turn_buffer_def)
  have turn: ?turn
  proof (cases "tools a = []")
    case True
    obtain r l where c: "chat io (llm a) (turn_prompt io a u) = (r, l)"
      by (cases "chat io (llm a) (turn_prompt io a u)")
    show ?thesis
      using True c by (cases r) (simp_all add: run_with_chat [OF True] calls_of_run_def)
  next
    case False
    obtain r l where c: "chat_with_tools io (llm a) (turn_prompt io a u) (tools a) = (r, l)"
      by (cases "chat_with_tools io (llm a) (turn_prompt io a u) (tools a)")
    show ?thesis
      using False c by (cases r) (simp_all add: run_with_tools [OF False] calls_of_run_def)
  qed
  from fetch turn show ?thesis by (rule conjI)
qed

text \<open>
  C1 as stated fails: on a new agent, \<open>run("hello")\<close> appends the input before anything
  else, the context fetch reads a buffer that holds it, and the prompt sent to the LLM
  carries the input a second time as its own context.
\<close>

theorem run_context_fetch_counterexample:
  "calls_of_run hi_llm new_agent ''hello'' =
     [AddShortTerm ''hello'' ''user_input'',
      GetRelevantContext ''hello'' [\<lparr>entry_type = ''user_input'', content = ''hello''\<rparr>],
      Chat (''hello'' @ [CHR 0x0A, CHR 0x0A] @ ''[Available context]'' @ [CHR 0x0A] @ ''hello''),
      AddShortTerm ''hi'' ''agent_response'', SaveSession]"
  by (simp add: calls_of_run_def run_def Let_def add_short_term_def hi_llm_def new_agent_def
      augment_def content_or_empty_def save_session_def)

subsection \<open>A turn without tools\<close>

text \<open>
  C2. With no tool registered, \<open>run\<close> makes exactly one \<open>chat\<close> call, on the prompt of
  the turn, and no \<open>chat_with_tools\<close> call: its result and the client state it leaves
  are those of that \<open>chat\<close> call, and it does not depend on what \<open>chat_with_tools\<close>
  would do. When it returns a response \<open>r\<close>, the buffer has gained exactly two entries,
  the \<open>user_input\<close> entry of the input and then the \<open>agent_response\<close> entry of \<open>r\<close>,
  and the saved session is that buffer.
\<close>

theorem run_without_tools:
  assumes "tools a = []"
  shows "run io a u =
    (case chat io (llm a) (turn_prompt io a u) of
       (Inl e, l) \<Rightarrow>
         (Inl e,
          a\<lparr>llm := l,
            agent_memory := (agent_memory a)\<lparr>short_term := turn_buffer a u\<rparr>,
            calls := calls a @ [AddShortTerm u ''user_input'',
              GetRelevantContext u (turn_buffer a u), Chat (turn_prompt io a u)]\<rparr>)
     | (Inr c, l) \<Rightarrow>
         (Inr (content_or_empty c),
          a\<lparr>llm := l,
            agent_memory := (agent_memory a)
              \<lparr>short_term := turn_buffer a u @
                 [\<lparr>entry_type = ''agent_response'', content = content_or_empty c\<rparr>],
               session_store := Some (turn_buffer a u @
                 [\<lparr>entry_type = ''agent_response'', content = content_or_empty c\<rparr>])\<rparr>,
            calls := calls a @ [AddShortTerm u ''user_input'',
              GetRelevantContext u (turn_buffer a u), Chat (turn_prompt io a u),
              AddShortTerm (content_or_empty c) ''agent_response'', SaveSession]\<rparr>))
    \<and> fst (run io a u) = map_sum id content_or_empty (fst (chat io (llm a) (turn_prompt io a u)))
    \<and> llm (snd (run io a u)) = snd (chat io (llm a) (turn_prompt io a u))
    \<and> filter is_chat (calls_of_run io a u) = [Chat (turn_prompt io a u)]
    \<and> length (filter is_chat (calls_of_run io a u)) = 1
    \<and> filter is_chat_with_tools (calls_of_run io a u) = []
    \<and> (\<forall>f. run (io\<lparr>chat_with_tools := f\<rparr>) a u = run io a u)
    \<and> (\<forall>r. fst (run io a u) = Inr r \<longrightarrow>
          short_term (agent_memory (snd (run io a u))) =
            short_term (agent_memory a) @
              [\<lparr>entry_type = ''user_input'', content = u\<rparr>,
               \<lparr>entry_type = ''agent_response'', content = r\<rparr>]
          \<and> session_store (agent_memory (snd (run io a u))) =
              Some (short_term (agent_memory (snd (run io a u)))))"
proof -
  obtain r l where c: "chat io (llm a) (turn_prompt io a u) = (r, l)"
    by (cases "chat io (llm a) (turn_prompt io a u)")
  have indep: "run (io\<lparr>chat_with_tools := f\<rparr>) a u = run io a u" for f
  proof -
    have "turn_prompt (io\<lparr>chat_with_tools := f\<rparr>) a u = turn_prompt io a u"
      by (simp add: turn_prompt_def)
    then show ?thesis by (simp add: run_with_chat [OF assms] split: prod.splits sum.splits)
  qed
  have rest: "fst (run io a u) = map_sum id content_or_empty (fst (chat io (llm a) (turn_prompt io a u)))
    \<and> llm (snd (run io a u)) = snd (chat io (llm a) (turn_prompt io a u))
    \<and> filter is_chat (calls_of_run io a u) = [Chat (turn_prompt io a u)]
    \<and> length (filter is_chat (calls_of_run io a u)) = 1
    \<and> filter is_chat_with_tools (calls_of_run io a u) = []
    \<and> (\<forall>r. fst (run io a u) = Inr r \<longrightarrow>
          short_term (agent_memory (snd (run io a u))) =
            short_term (agent_memory a) @
              [\<lparr>entry_type = ''user_input'', content = u\<rparr>,
               \<lparr>entry_type = ''agent_response'', content = r\<rparr>]
          \<and> session_store (agent_memory (snd (run io a u))) =
              Some (short_term (agent_memory (snd (run io a u)))))"
    using c by (cases r) (simp_all add: run_with_chat [OF assms] calls_of_run_def turn_buffer_def)
  from run_with_chat [OF assms, of io u] rest indep show ?thesis by blast
qed

theorem run_without_tools_witness:
  "tools new_agent = []
   \<and> fst (run hi_llm new_agent ''hello'') = Inr ''hi''
   \<and> filter is_chat (calls_of_run hi_llm new_agent ''hello'') =
       [Chat (''hello'' @ [CHR 0x0A, CHR 0x0A] @ ''[Available context]'' @ [CHR 0x0A] @ ''hello'')]
   \<and> filter is_chat_with_tools (calls_of_run hi_llm new_agent ''hello'') = []
   \<and> short_term (agent_memory (snd (run hi_llm new_agent ''hello''))) =
       [\<lparr>entry_type = ''user_input'', content = ''hello''\<rparr>,
        \<lparr>entry_type = ''agent_response'', content = ''hi''\<rparr>]
   \<and> session_store (agent_memory (snd (run hi_llm new_agent ''hello''))) =
       Some [\<lparr>entry_type = ''user_input'', content = ''hello''\<rparr>,
             \<lparr>entry_type = ''agent_response'', content = ''hi''\<rparr>]"
proof -
  have t: "tools new_agent = []" by (simp add: new_agent_def)
  have p: "turn_prompt hi_llm new_agent ''hello'' =
      ''hello'' @ [CHR 0x0A, CHR 0x0A] @ ''[Available context]'' @ [CHR 0x0A] @ ''hello''"
    by (simp add: turn_prompt_def turn_buffer_def augment_def hi_llm_def new_agent_def)
  have c: "chat hi_llm (llm new_agent) (turn_prompt hi_llm new_agent ''hello'') = (Inr (Some ''hi''), ())"
    by (simp add: hi_llm_def)
  have m: "short_term (agent_memory new_agent) = []" by (simp add: new_agent_def)
  have b: "turn_buffer new_agent ''hello'' = [\<lparr>entry_type = ''user_input'', content = ''hello''\<rparr>]"
    by (simp add: turn_buffer_def new_agent_def)
  from run_without_tools [OF t, of hi_llm "''hello''"] t p c m b show ?thesis
    by (simp add: content_or_empty_def)
qed

subsection \<open>Direct execution of a skill\<close>

text \<open>
  C3. For a name that is not a key of the registry, \<open>run_skill_directly\<close> returns the
  string \<open>Skill not found: <name>\<close>, whatever the keyword arguments, and does not raise;
  for a registered name it returns what \<open>execute\<close> of the skill stored under that name
  returns on the keyword arguments.
\<close>

theorem run_skill_directly_result:
  "(name \<notin> set (get_available_skills a) \<longrightarrow>
      run_skill_directly a name kwargs = Inr (''Skill not found: '' @ name))
   \<and> (name \<in> set (get_available_skills a) \<longrightarrow>
      (\<exists>skill. map_of (skills a) name = Some skill
         \<and> run_skill_directly a name kwargs = execute skill kwargs))"
proof (cases "map_of (skills a) name")
  case None
  then have "name \<notin> set (map fst (skills a))" by (simp add: map_of_eq_None_iff)
  then show ?thesis by (simp add: run_skill_directly_def get_available_skills_def)
next
  case (Some skill)
  then have "name \<in> set (map fst (skills a))"
    by (metis map_of_eq_None_iff option.distinct(1) set_map)
  with Some show ?thesis by (simp add: run_skill_directly_def get_available_skills_def)
qed

theorem run_skill_directly_result_witness:
  "''pdf'' \<notin> set (get_available_skills (snd (register_skill quiet_console new_agent first_skill)))
   \<and> run_skill_directly (snd (register_skill quiet_console new_agent first_skill)) ''pdf'' [(''content'', ''x'')] =
       Inr ''Skill not found: pdf''
   \<and> run_skill_directly (snd (register_skill quiet_console new_agent first_skill)) ''pdf'' [] =
       Inr ''Skill not found: pdf''
   \<and> ''first'' \<in> set (get_available_skills (snd (register_skill quiet_console new_agent first_skill)))
   \<and> run_skill_directly (snd (register_skill quiet_console new_agent first_skill)) ''first'' [] =
       Inr ''first executed''"
proof -
  let ?a = "snd (register_skill quiet_console new_agent first_skill)"
  have k: "get_available_skills ?a = [''first'']"
    by (simp add: get_available_skills_def register_skill_def print_line_def new_agent_def
        first_skill_def quiet_console_def)
  have m: "map_of (skills ?a) ''first'' = Some first_skill"
    by (simp add: register_skill_def print_line_def new_agent_def first_skill_def
        quiet_console_def)
  have e: "execute first_skill [] = Inr ''first executed''" by (simp add: first_skill_def)
  from run_skill_directly_result [of "''pdf''" ?a "[(''content'', ''x'')]"]
    run_skill_directly_result [of "''pdf''" ?a "[]"]
    run_skill_directly_result [of "''first''" ?a "[]"] k m e
  show ?thesis by simp
qed

subsection \<open>Loading skills\<close>

lemma register_skill_fields:
  "agent_config (snd (register_skill con a s)) = agent_config a"
  "tools (snd (register_skill con a s)) = tools a @ get_tools s"
  "skills (snd (register_skill con a s)) = AList.update (skill_name s) s (skills a)"
  by (simp_all add: register_skill_def print_line_def split: option.splits)

lemma rich_console_bracketed_path:
  "rich_console ''[yellow]Missing dependency for OCRSkill: library not found in [/usr/lib, /usr/local/lib][/yellow]'' =
     Some (MarkupError (''closing tag '' @ [CHR 0x27] @ ''[/usr/lib, /usr/local/lib]'' @ [CHR 0x27]
              @ '' at position 62 doesn'' @ [CHR 0x27] @ ''t match any open tag''))"
  by code_simp

text \<open>
  C4. The claim fails on the code where the console cannot render a diagnostic. A class
  whose constructor raises \<open>ImportError\<close> with a message that holds a bracketed path is
  followed by a valid class; the \<open>except ImportError\<close> handler prints the message as
  console markup, the console raises \<open>MarkupError\<close> inside the handler, and
  \<open>load_skills\<close> raises with no skill registered, the valid one included. Both classes
  are of the kind the claim is about.
\<close>

theorem load_skills_markup_raises:
  "constructs_or_fails (agent_config new_agent) markup_class
   \<and> constructs_or_fails (agent_config new_agent) second_class
   \<and> fst (load_skills rich_console new_agent [markup_class, second_class]) =
       Inl (MarkupError (''closing tag '' @ [CHR 0x27] @ ''[/usr/lib, /usr/local/lib]'' @ [CHR 0x27]
              @ '' at position 62 doesn'' @ [CHR 0x27] @ ''t match any open tag''))
   \<and> get_available_skills (snd (load_skills rich_console new_agent [markup_class, second_class])) = []"
  using rich_console_bracketed_path
  by (simp add: constructs_or_fails_def markup_class_def second_class_def load_skill_class_def
      load_skill_try_def print_line_def new_agent_def get_available_skills_def)

text \<open>
  Where the console prints every text it is given, the loader does what the claim says:
  it does not raise, and it registers the skills that construct and that the
  configuration enables, as in scenario 4 of the spec.
\<close>

lemma get_available_skills_register:
  "set (get_available_skills (snd (register_skill con a s))) =
     insert (skill_name s) (set (get_available_skills a))"
  by (simp add: get_available_skills_def register_skill_fields dom_update)

lemma print_line_prints:
  "con s = None \<Longrightarrow> print_line con s a = (Inr (), a\<lparr>printed := printed a @ [s]\<rparr>)"
  by (simp add: print_line_def)

lemma load_skill_class_step:
  assumes "\<forall>s. con s = None" "constructs_or_fails (agent_config a) c"
  shows "fst (load_skill_class con a c) = Inr ()
     \<and> agent_config (snd (load_skill_class con a c)) = agent_config a
     \<and> set (get_available_skills (snd (load_skill_class con a c))) =
         set (get_available_skills a) \<union> skill_name ` set (registered_by (agent_config a) [c])
     \<and> tools (snd (load_skill_class con a c)) =
         tools a @ concat (map get_tools (registered_by (agent_config a) [c]))"
proof (cases "construct c (agent_config a)")
  case (Inl e)
  with assms(2) have "load_failure e" by (simp add: constructs_or_fails_def)
  with Inl assms(1) show ?thesis
    by (cases e)
      (simp_all add: load_skill_class_def load_skill_try_def print_line_prints
        get_available_skills_def registered_by_def)
next
  case (Inr s)
  show ?thesis
  proof (cases "is_skill_enabled (agent_config a) (skill_name s)")
    case True
    with Inr assms(1) show ?thesis
      by (simp add: load_skill_class_def load_skill_try_def register_skill_def
          print_line_prints get_available_skills_def registered_by_def dom_update)
  next
    case False
    with Inr assms(1) show ?thesis
      by (simp add: load_skill_class_def load_skill_try_def print_line_prints
          get_available_skills_def registered_by_def)
  qed
qed

lemma registered_by_Cons:
  "registered_by cfg (c # cs) = registered_by cfg [c] @ registered_by cfg cs"
  by (simp add: registered_by_def)

lemma load_skills_where_console_prints:
  assumes "\<forall>s. con s = None" "\<forall>c \<in> set cs. constructs_or_fails (agent_config a) c"
  shows "fst (load_skills con a cs) = Inr ()
     \<and> agent_config (snd (load_skills con a cs)) = agent_config a
     \<and> set (get_available_skills (snd (load_skills con a cs))) =
         set (get_available_skills a) \<union> skill_name ` set (registered_by (agent_config a) cs)
     \<and> tools (snd (load_skills con a cs)) =
         tools a @ concat (map get_tools (registered_by (agent_config a) cs))"
  using assms(2)
proof (induction cs arbitrary: a)
  case Nil
  then show ?case by (simp add: registered_by_def)
next
  case (Cons c cs)
  obtain r a1 where l: "load_skill_class con a c = (r, a1)" by (cases "load_skill_class con a c")
  from Cons.prems have "constructs_or_fails (agent_config a) c" by simp
  from load_skill_class_step [OF assms(1) this] l
  have a1: "r = Inr ()" "agent_config a1 = agent_config a"
     "set (get_available_skills a1) =
         set (get_available_skills a) \<union> skill_name ` set (registered_by (agent_config a) [c])"
     "tools a1 = tools a @ concat (map get_tools (registered_by (agent_config a) [c]))"
    by simp_all
  from Cons.prems a1(2) have "\<forall>c \<in> set cs. constructs_or_fails (agent_config a1) c" by simp
  from Cons.IH [OF this]
  have ih: "fst (load_skills con a1 cs) = Inr ()"
     "agent_config (snd (load_skills con a1 cs)) = agent_config a1"
     "set (get_available_skills (snd (load_skills con a1 cs))) =
         set (get_available_skills a1) \<union> skill_name ` set (registered_by (agent_config a1) cs)"
     "tools (snd (load_skills con a1 cs)) =
         tools a1 @ concat (map get_tools (registered_by (agent_config a1) cs))"
    by simp_all
  have s: "load_skills con a (c # cs) = load_skills con a1 cs" using l a1(1) by simp
  show ?case
    unfolding s ih a1 registered_by_Cons [of _ c cs] by auto
qed

lemma load_skills_quiet_scenario:
  "fst (load_skills quiet_console new_agent [broken_class, second_class]) = Inr ()
   \<and> get_available_skills (snd (load_skills quiet_console new_agent [broken_class, second_class])) =
       [''second'']"
  by (simp add: load_skill_class_def load_skill_try_def broken_class_def second_class_def
      new_agent_def register_skill_def print_line_def second_skill_def get_available_skills_def
      quiet_console_def)


subsection \<open>Name collisions at registration\<close>

text \<open>
  C5 (as amended). \<open>register_skill\<close> only appends to the flat tool list: after two
  registrations the list is the old list, then the tools of the first skill, then the
  tools of the second, so two tools of one name are both in it, in registration order.
  In the registry the name of the skill registered last maps to that skill, and when the
  two skills share a name the name is listed once.
\<close>

theorem register_skill_collisions:
  "tools (snd (register_skill con (snd (register_skill con a s1)) s2)) =
     tools a @ get_tools s1 @ get_tools s2
   \<and> map_of (skills (snd (register_skill con (snd (register_skill con a s1)) s2))) (skill_name s2) =
       Some s2
   \<and> (skill_name s1 = skill_name s2 \<longrightarrow>
        get_available_skills (snd (register_skill con (snd (register_skill con a s1)) s2)) =
          get_available_skills (snd (register_skill con a s1)))"
  by (simp add: register_skill_fields update_conv' get_available_skills_def map_update
     update_keys)

theorem register_skill_collisions_witness:
  "skill_name first_skill = skill_name first_again
   \<and> map tool_description
       (tools (snd (register_skill quiet_console
          (snd (register_skill quiet_console new_agent first_skill)) first_again))) =
       [''from first'', ''from first again'']
   \<and> map_option skill_description
       (map_of (skills (snd (register_skill quiet_console
          (snd (register_skill quiet_console new_agent first_skill)) first_again))) ''first'') =
       Some ''registered under a taken name''
   \<and> get_available_skills (snd (register_skill quiet_console
          (snd (register_skill quiet_console new_agent first_skill)) first_again)) =
       [''first'']"
proof -
  have n: "skill_name first_skill = skill_name first_again"
    by (simp add: first_skill_def first_again_def)
  have t: "tools new_agent = []" "get_tools first_skill = [echo_tool ''from first'']"
    "get_tools first_again = [echo_tool ''from first again'']"
    "skill_name first_again = ''first''"
    "skill_description first_again = ''registered under a taken name''"
    by (simp_all add: new_agent_def first_skill_def first_again_def)
  have g: "get_available_skills (snd (register_skill quiet_console new_agent first_skill)) = [''first'']"
    by (simp add: get_available_skills_def register_skill_def print_line_def new_agent_def
        first_skill_def quiet_console_def)
  from register_skill_collisions [of quiet_console new_agent first_skill first_again] n t g
  show ?thesis by (simp add: echo_tool_def)
qed

text \<open>
  C5 as stated fails: after two skills that each contribute a tool named \<open>echo\<close> are
  registered, the flat tool list holds both tools of that name, the first one first.
\<close>

theorem register_skill_shadow_counterexample:
  "map tool_description
     (tools_named ''echo''
        (tools (snd (register_skill quiet_console
           (snd (register_skill quiet_console new_agent first_skill)) second_skill)))) =
     [''from first'', ''from second'']"
  by (simp add: tools_named_def register_skill_def print_line_def new_agent_def first_skill_def
      second_skill_def echo_tool_def quiet_console_def)

section \<open>Properties of the response queue\<close>

lemma all_pending_filter: "all_pending (filter (\<lambda>item. item_status item = ''pending'') q)"
  by (simp add: all_pending_def list_all_iff)

lemma queue_send_returns_pending:
  assumes "fst (queue_send net queue_id w s) = Inr text"
  shows "all_pending (response_queue (snd (snd (queue_send net queue_id w s))))"
proof (cases "response_queue s = []")
  case True
  then show ?thesis by (simp add: queue_send_def all_pending_def)
next
  case False
  obtain e q sent errors w' where l: "send_loop net queue_id (response_queue s) w = (e, q, sent, errors, w')"
    by (metis prod_cases5)
  with assms False have "e = None" by (cases e) (simp_all add: queue_send_def)
  with l False show ?thesis by (simp add: queue_send_def all_pending_filter)
qed

lemma queue_add_appends_pending:
  "\<exists>item. response_queue (snd (queue_add now platform message_id response priority s)) =
      response_queue s @ [item] \<and> item_status item = ''pending''"
  by (simp add: queue_add_def Let_def)

lemma queue_list_snd: "snd (queue_list s) = s"
  by (simp add: queue_list_def)

lemma apply_queue_call_pending:
  assumes "fst (apply_queue_call net ws c) = Inr text" "all_pending (response_queue (snd ws))"
  shows "all_pending (response_queue (snd (snd (apply_queue_call net ws c))))"
proof (cases ws)
  case (Pair w s)
  with assms(2) have p: "all_pending (response_queue s)" by simp
  show ?thesis
  proof (cases c)
    case (QueueAdd now platform message_id response priority)
    with Pair p show ?thesis by (simp add: queue_add_def Let_def all_pending_def)
  next
    case QueueList
    with Pair p queue_list_snd [of s] show ?thesis by (cases "queue_list s") simp
  next
    case (QueueSend queue_id)
    with Pair assms(1) have "fst (queue_send net queue_id w s) = Inr text" by simp
    from queue_send_returns_pending [OF this] Pair QueueSend show ?thesis by simp
  qed
qed

lemma calls_complete_pending:
  "calls_complete net ws cs \<Longrightarrow> all_pending (response_queue (snd ws)) \<Longrightarrow>
   all_pending (response_queue (snd (foldl (\<lambda>ws c. snd (apply_queue_call net ws c)) ws cs)))"
proof (induction cs arbitrary: ws)
  case Nil
  then show ?case by simp
next
  case (Cons c cs)
  obtain r ws' where a: "apply_queue_call net ws c = (r, ws')"
    by (cases "apply_queue_call net ws c")
  with Cons.prems(1) obtain out where r: "r = Inr out" and rest: "calls_complete net ws' cs"
    by (cases r) simp_all
  from apply_queue_call_pending [of net ws c out] a r Cons.prems(2)
  have "all_pending (response_queue (snd ws'))" by simp
  from Cons.IH [OF rest this] a show ?case by simp
qed

text \<open>
  C9 (as amended). Starting from the empty queue of a new skill, after every run of
  \<open>queue_add\<close>, \<open>queue_list\<close> and \<open>queue_send\<close> calls in which no call raises, every
  item of the response queue has status \<open>pending\<close>. \<open>queue_add\<close> appends one item, of
  status \<open>pending\<close>; \<open>queue_list\<close> leaves the skill as it is; and \<open>queue_send\<close>,
  whenever it returns, leaves only \<open>pending\<close> items, whatever the queue held before.
\<close>

theorem response_queue_pending:
  "(calls_complete net (w, SocialMediaSkill) cs \<longrightarrow>
      all_pending (response_queue (snd (queue_calls net w cs))))
   \<and> (\<exists>item. response_queue (snd (queue_add now platform message_id response priority s)) =
         response_queue s @ [item] \<and> item_status item = ''pending'')
   \<and> snd (queue_list s) = s
   \<and> (\<forall>text. fst (queue_send net queue_id w s) = Inr text \<longrightarrow>
         all_pending (response_queue (snd (snd (queue_send net queue_id w s)))))"
proof -
  have i: "all_pending (response_queue (snd (w, SocialMediaSkill)))"
    by (simp add: SocialMediaSkill_def all_pending_def)
  have "calls_complete net (w, SocialMediaSkill) cs \<Longrightarrow>
      all_pending (response_queue (snd (queue_calls net w cs)))"
    unfolding queue_calls_def by (rule calls_complete_pending [OF _ i])
  then show ?thesis
    by (intro conjI allI impI)
      (assumption, rule queue_add_appends_pending, rule queue_list_snd,
       erule queue_send_returns_pending)
qed

lemma two_replies_sent:
  "queue_calls tg_net () (two_replies @ [QueueSend None]) =
     ((), \<lparr>messages_cache = [],
           response_queue =
             [\<lparr>item_id = ''q_2'', item_platform = ''telegram'', item_message_id = ''43'',
               item_response = ''bye'', item_priority = ''high'', item_status = ''pending'',
               item_created_at = ''2024-01-01T00:00:01''\<rparr>]\<rparr>)"
  by (simp add: queue_calls_def two_replies_def SocialMediaSkill_def queue_add_def
      queue_send_def selected_def send_reply_def get_credentials_def PLATFORMS_def
      tg_net_def lower_def lower_char_def replace.simps success_dict_def error_dict_def
      str_nat.simps digit_char_def telegram_reply_def telegram_answer_def py_get_def
      reply_outcome_def py_str_def)

lemma two_replies_complete:
  "calls_complete tg_net ((), SocialMediaSkill) (two_replies @ [QueueSend None])"
  by (simp add: two_replies_def SocialMediaSkill_def queue_add_def
      queue_send_def selected_def send_reply_def get_credentials_def PLATFORMS_def
      tg_net_def lower_def lower_char_def replace.simps success_dict_def error_dict_def
      str_nat.simps digit_char_def telegram_reply_def telegram_answer_def py_get_def
      reply_outcome_def py_str_def)

theorem response_queue_pending_witness:
  "calls_complete tg_net ((), SocialMediaSkill) (two_replies @ [QueueSend None])
   \<and> map item_id (response_queue (snd (queue_calls tg_net () (two_replies @ [QueueSend None])))) = [''q_2'']
   \<and> all_pending (response_queue (snd (queue_calls tg_net () (two_replies @ [QueueSend None]))))
   \<and> fst (queue_send tg_net None () \<lparr>messages_cache = [], response_queue = [sent_item]\<rparr>) =
       Inr (icon_done @ '' Sent: 0 responses'')
   \<and> all_pending (response_queue (snd (snd
         (queue_send tg_net None () \<lparr>messages_cache = [], response_queue = [sent_item]\<rparr>))))"
proof -
  let ?s = "\<lparr>messages_cache = [], response_queue = [sent_item]\<rparr>"
  have r: "fst (queue_send tg_net None () ?s) = Inr (icon_done @ '' Sent: 0 responses'')"
    by (simp add: queue_send_def sent_item_def selected_def str_nat.simps digit_char_def)
  have i: "map item_id (response_queue (snd (queue_calls tg_net () (two_replies @ [QueueSend None])))) = [''q_2'']"
    by (simp add: two_replies_sent)
  from response_queue_pending [of tg_net "()" "two_replies @ [QueueSend None]" _ _ _ _ _ ?s None]
    two_replies_complete r i
  show ?thesis by simp
qed

lemma reply_and_tweet_queue:
  "queue_calls array_net () reply_and_tweet =
     ((), \<lparr>messages_cache = [],
           response_queue =
             [\<lparr>item_id = ''q_1'', item_platform = ''telegram'', item_message_id = ''42'',
               item_response = ''hello'', item_priority = ''normal'', item_status = ''pending'',
               item_created_at = ''2024-01-01T00:00:00''\<rparr>,
              \<lparr>item_id = ''q_2'', item_platform = ''twitter'', item_message_id = ''1001'',
               item_response = ''thanks'', item_priority = ''normal'', item_status = ''pending'',
               item_created_at = ''2024-01-01T00:00:01''\<rparr>]\<rparr>)"
  by (simp add: queue_calls_def reply_and_tweet_def SocialMediaSkill_def queue_add_def
      str_nat.simps digit_char_def)

lemma reply_and_tweet_send:
  "queue_send array_net None ()
     \<lparr>messages_cache = [],
      response_queue =
        [\<lparr>item_id = ''q_1'', item_platform = ''telegram'', item_message_id = ''42'',
          item_response = ''hello'', item_priority = ''normal'', item_status = ''pending'',
          item_created_at = ''2024-01-01T00:00:00''\<rparr>,
         \<lparr>item_id = ''q_2'', item_platform = ''twitter'', item_message_id = ''1001'',
          item_response = ''thanks'', item_priority = ''normal'', item_status = ''pending'',
          item_created_at = ''2024-01-01T00:00:01''\<rparr>]\<rparr> =
     (Inl (AttributeError ([CHR 0x27] @ ''list'' @ [CHR 0x27] @ '' object has no attribute ''
            @ [CHR 0x27] @ ''get'' @ [CHR 0x27])),
      (), \<lparr>messages_cache = [],
           response_queue =
             [\<lparr>item_id = ''q_1'', item_platform = ''telegram'', item_message_id = ''42'',
               item_response = ''hello'', item_priority = ''normal'', item_status = ''sent'',
               item_created_at = ''2024-01-01T00:00:00''\<rparr>,
              \<lparr>item_id = ''q_2'', item_platform = ''twitter'', item_message_id = ''1001'',
               item_response = ''thanks'', item_priority = ''normal'', item_status = ''pending'',
               item_created_at = ''2024-01-01T00:00:01''\<rparr>]\<rparr>)"
  by (simp add: queue_send_def selected_def send_reply_def make_request_post_def
      get_credentials_def PLATFORMS_def array_net_def lower_def lower_char_def replace.simps
      success_dict_def error_dict_def telegram_reply_def telegram_answer_def py_get_def
      reply_outcome_def no_attribute_def get_auth_headers_def)

text \<open>
  C9 as stated fails. A reply to Telegram chat 42 and a tweet are queued; \<open>queue_send\<close>
  sends the first and marks it \<open>sent\<close>, then the Twitter API answers with a JSON array,
  on which \<open>result.get\<close> raises \<open>AttributeError\<close>, so \<open>queue_send\<close> raises before it
  removes the sent item. The \<open>queue_list\<close> call that follows completes, and the queue
  holds an item of status \<open>sent\<close>.
\<close>

theorem response_queue_sent_counterexample:
  "fst (queue_send array_net None () (snd (queue_calls array_net () reply_and_tweet))) =
     Inl (AttributeError ([CHR 0x27] @ ''list'' @ [CHR 0x27] @ '' object has no attribute ''
            @ [CHR 0x27] @ ''get'' @ [CHR 0x27]))
   \<and> map item_status
       (response_queue (snd (queue_calls array_net () (reply_and_tweet @ [QueueSend None, QueueList])))) =
       [''sent'', ''pending'']
   \<and> \<not> all_pending
       (response_queue (snd (queue_calls array_net () (reply_and_tweet @ [QueueSend None, QueueList]))))"
proof -
  have "queue_calls array_net () (reply_and_tweet @ [QueueSend None, QueueList]) =
      snd (apply_queue_call array_net
        (snd (apply_queue_call array_net (queue_calls array_net () reply_and_tweet) (QueueSend None)))
        QueueList)"
    by (simp add: queue_calls_def)
  then show ?thesis
    by (simp add: reply_and_tweet_queue reply_and_tweet_send queue_list_def all_pending_def)
qed

section \<open>Properties of the capsule search\<close>

lemma bind_exn_Inr:
  "bind_exn x f = Inr y \<Longrightarrow> \<exists>v. x = Inr v \<and> f v = Inr y"
  by (cases x) (simp_all add: bind_exn_def)

lemma bind_exn_simps:
  "bind_exn (Inr v) f = f v"
  "bind_exn (Inl e) f = Inl e"
  by (simp_all add: bind_exn_def)

lemma slice_to_length: "0 \<le> limit \<Longrightarrow> int (length (slice_to limit xs)) \<le> limit"
  by (simp add: slice_to_def)

lemma slice_to_subset: "set (slice_to limit xs) \<subseteq> set xs"
  by (auto simp: slice_to_def dest: in_set_takeD)

lemma slice_to_sorted: "sorted_wrt R xs \<Longrightarrow> sorted_wrt R (slice_to limit xs)"
  by (simp add: slice_to_def sorted_wrt_take)

lemma sort_by_score_set: "set (sort_by_score xs) = set xs"
  by (simp add: sort_by_score_def)

lemma sort_by_score_sorted: "sorted_wrt (\<lambda>x y. fst x \<ge> fst y) (sort_by_score xs)"
proof -
  have "sorted (map (\<lambda>x. - fst x) (sort_by_score xs))"
    by (simp add: sort_by_score_def)
  then show ?thesis by (simp add: sorted_wrt_map)
qed

lemma score_all_positive:
  "score_all env query caps = Inr scored \<Longrightarrow> \<forall>x \<in> set scored. 0 < fst x"
proof (induction caps arbitrary: scored)
  case Nil
  then show ?case by simp
next
  case (Cons cap caps)
  from Cons.prems obtain score where "match_score env cap query = Inr score"
    and r: "bind_exn (score_all env query caps)
        (\<lambda>rest. Inr (if score > 0 then (score, cap) # rest else rest)) = Inr scored"
    by (auto dest: bind_exn_Inr)
  from bind_exn_Inr [OF r] obtain rest where rest: "score_all env query caps = Inr rest"
    and s: "scored = (if score > 0 then (score, cap) # rest else rest)"
    by auto
  from Cons.IH [OF rest] s show ?case by auto
qed

lemma to_result_score: "to_result x = Inr r \<Longrightarrow> res_score r = fst x"
  by (cases x) (auto simp: to_result_def dest!: bind_exn_Inr)

lemma build_results_scores:
  "build_results xs = Inr rs \<Longrightarrow> map res_score rs = map fst xs"
proof (induction xs arbitrary: rs)
  case Nil
  then show ?case by simp
next
  case (Cons x xs)
  from Cons.prems obtain r where r: "to_result x = Inr r"
    and b: "bind_exn (build_results xs) (\<lambda>rs. Inr (r # rs)) = Inr rs"
    by (auto dest: bind_exn_Inr)
  from bind_exn_Inr [OF b] obtain rs' where rs': "build_results xs = Inr rs'" and e: "rs = r # rs'"
    by auto
  from Cons.IH [OF rs'] to_result_score [OF r] e show ?case by simp
qed

text \<open>
  When the search returns the result object, its results are those of a slice of the
  sorted list of the capsules with a positive score.
\<close>

lemma hublab_search_scored:
  assumes "fst (hublab_search env s query category limit) = Inr out"
  shows "\<exists>scored. (\<forall>x \<in> set scored. 0 < fst x)
     \<and> map res_score (results_of out) = map fst (slice_to limit (sort_by_score scored))"
proof -
  obtain r s' where l: "load_capsules env s = (r, s')" by (cases "load_capsules env s")
  show ?thesis
  proof (cases r)
    case (Inl e)
    with l assms show ?thesis by (simp add: hublab_search_def)
  next
    case (Inr capsules)
    show ?thesis
    proof (cases "truthy capsules")
      case False
      with l Inr assms have "results_of out = []"
        by (auto simp: hublab_search_def results_of_def)
      then have "(\<forall>x \<in> set ([] :: (int \<times> json) list). 0 < fst x)
          \<and> map res_score (results_of out) = map fst (slice_to limit (sort_by_score []))"
        by (simp add: slice_to_def sort_by_score_def)
      then show ?thesis by blast
    next
      case True
      with l Inr assms have
        "bind_exn (filter_category env category capsules) (\<lambda>capsules.
         bind_exn (py_iter capsules) (\<lambda>caps.
         bind_exn (score_all env query caps) (\<lambda>scored.
         bind_exn (build_results (slice_to limit (sort_by_score scored))) (\<lambda>results.
         bind_exn (py_len capsules) (\<lambda>total_searched.
           Inr (SearchResults query category (length results) total_searched results)))))) =
         Inr out"
        by (simp add: hublab_search_def)
      then obtain filtered caps scored results total where
        sc: "score_all env query caps = Inr scored"
        and br: "build_results (slice_to limit (sort_by_score scored)) = Inr results"
        and out: "out = SearchResults query category (length results) total results"
        by (auto dest!: bind_exn_Inr)
      from build_results_scores [OF br] out score_all_positive [OF sc] show ?thesis
        by (auto simp: results_of_def)
    qed
  qed
qed

text \<open>
  C10 (as amended). Whenever \<open>hublab_search\<close> returns: for a limit that is not negative
  it returns at most \<open>limit\<close> results; for every limit each result has a strictly
  positive score and the scores do not increase along the list. And when there is no
  cached catalog, the metadata file is reported absent or reading it raises an
  \<open>Exception\<close>, and the API request raises an \<open>Exception\<close>, the function returns the
  error object, as it does whenever the loader returns a value that Python's truth test
  rejects.
\<close>

theorem hublab_search_results:
  "(\<forall>out. fst (hublab_search env s query category limit) = Inr out \<longrightarrow>
      (0 \<le> limit \<longrightarrow> int (length (results_of out)) \<le> limit)
      \<and> (\<forall>r \<in> set (results_of out). 0 < res_score r)
      \<and> sorted_wrt (\<ge>) (map res_score (results_of out)))
   \<and> (capsules_cache s = JNull \<and> file_unavailable env \<and> api_unavailable env \<longrightarrow>
      fst (hublab_search env s query category limit) =
        Inr (SearchError ''Could not load capsules. Check HUBLAB_PATH or API.''
               (''Set HUBLAB_PATH env var (current: '' @ hublab_path env @ '')'')))
   \<and> (\<forall>v. fst (load_capsules env s) = Inr v \<and> \<not> truthy v \<longrightarrow>
      fst (hublab_search env s query category limit) =
        Inr (SearchError ''Could not load capsules. Check HUBLAB_PATH or API.''
               (''Set HUBLAB_PATH env var (current: '' @ hublab_path env @ '')'')))"
proof (intro conjI allI impI)
  fix out
  assume a: "fst (hublab_search env s query category limit) = Inr out"
  from hublab_search_scored [OF a] obtain scored where
    pos: "\<forall>x \<in> set scored. 0 < fst x"
    and m: "map res_score (results_of out) = map fst (slice_to limit (sort_by_score scored))"
    by blast
  from m have len: "length (results_of out) = length (slice_to limit (sort_by_score scored))"
    by (metis length_map)
  {
    assume "0 \<le> limit"
    with len show "int (length (results_of out)) \<le> limit" by (simp add: slice_to_length)
  }
  have "\<forall>v \<in> set (map fst (slice_to limit (sort_by_score scored))). 0 < v"
    using pos slice_to_subset [of limit "sort_by_score scored"] by (auto simp: sort_by_score_set)
  with m have "\<forall>v \<in> set (map res_score (results_of out)). 0 < v" by simp
  then show "\<forall>r \<in> set (results_of out). 0 < res_score r" by simp
  have "sorted_wrt (\<lambda>x y. fst x \<ge> fst y) (slice_to limit (sort_by_score scored))"
    by (rule slice_to_sorted [OF sort_by_score_sorted])
  then have "sorted_wrt (\<ge>) (map fst (slice_to limit (sort_by_score scored)))"
    by (simp add: sorted_wrt_map)
  with m show "sorted_wrt (\<ge>) (map res_score (results_of out))" by simp
next
  assume a: "capsules_cache s = JNull \<and> file_unavailable env \<and> api_unavailable env"
  then have "load_from_api env s = (Inr (JList []), s)"
    by (auto simp: load_from_api_def api_unavailable_def split: sum.splits)
  with a have "load_capsules env s = (Inr (JList []), s)"
    by (auto simp: load_capsules_def file_unavailable_def split: sum.splits if_splits)
  then show "fst (hublab_search env s query category limit) =
        Inr (SearchError ''Could not load capsules. Check HUBLAB_PATH or API.''
               (''Set HUBLAB_PATH env var (current: '' @ hublab_path env @ '')''))"
    by (simp add: hublab_search_def)
next
  fix v
  assume "fst (load_capsules env s) = Inr v \<and> \<not> truthy v"
  then show "fst (hublab_search env s query category limit) =
        Inr (SearchError ''Could not load capsules. Check HUBLAB_PATH or API.''
               (''Set HUBLAB_PATH env var (current: '' @ hublab_path env @ '')''))"
    by (cases "load_capsules env s") (simp add: hublab_search_def)
qed

lemma local_scores:
  "match_score local_catalog (button_capsule ''card'' ''Card'') ''BUTTON'' = Inr 0"
  "match_score local_catalog (button_capsule ''icon-button'' ''Icon Button'') ''BUTTON'' = Inr 50"
  "match_score local_catalog (button_capsule ''button'' ''Button'') ''BUTTON'' = Inr 180"
  "match_score local_catalog (button_capsule ''button-group'' ''Button Group'') ''BUTTON'' = Inr 80"
  by (simp_all add: match_score_def score_of_def button_capsule_def get_lower_def py_get_def
      py_lower_def py_iter_def bind_exn_simps local_catalog_def lower_def lower_char_def
      sublist_Cons_right)

lemma local_results:
  "to_result (score, button_capsule i n) =
     Inr \<lparr>res_id = JStr i, res_name = JStr n, res_category = JStr ''UI'',
          res_description = JStr ''A clickable control'', res_tags = JList [JStr ''ui''],
          res_score = score\<rparr>"
  by (simp add: to_result_def button_capsule_def py_get_def bind_exn_simps py_slice_to_def
      slice_to_def)

lemma local_scored:
  "score_all local_catalog ''BUTTON''
     [button_capsule ''card'' ''Card'', button_capsule ''icon-button'' ''Icon Button'',
      button_capsule ''button'' ''Button'', button_capsule ''button-group'' ''Button Group''] =
   Inr [(50, button_capsule ''icon-button'' ''Icon Button''),
        (180, button_capsule ''button'' ''Button''),
        (80, button_capsule ''button-group'' ''Button Group'')]"
  by (simp add: local_scores bind_exn_simps)

lemma local_catalog_fields:
  "path_exists local_catalog = Inr True"
  "read_metadata local_catalog =
     Inr (JList [button_capsule ''card'' ''Card'', button_capsule ''icon-button'' ''Icon Button'',
                 button_capsule ''button'' ''Button'', button_capsule ''button-group'' ''Button Group''])"
  by (simp_all add: local_catalog_def)

lemma local_search:
  "fst (hublab_search local_catalog HubLabSkill ''BUTTON'' None limit) =
     bind_exn
       (build_results (slice_to limit
          [(180, button_capsule ''button'' ''Button''),
           (80, button_capsule ''button-group'' ''Button Group''),
           (50, button_capsule ''icon-button'' ''Icon Button'')]))
       (\<lambda>results. Inr (SearchResults ''BUTTON'' None (length results) (Suc (Suc (Suc (Suc 0)))) results))"
  by (simp add: hublab_search_def load_capsules_def HubLabSkill_def filter_category_def
      py_iter_def py_len_def bind_exn_simps local_scored sort_by_score_def local_catalog_fields
      del: score_all.simps)

lemma local_search_scores:
  "limit = 2 \<or> limit = - 1 \<Longrightarrow>
   map_sum id (map res_score \<circ> results_of)
     (fst (hublab_search local_catalog HubLabSkill ''BUTTON'' None limit)) = Inr [180, 80]"
  by (auto simp: local_search slice_to_def local_results bind_exn_simps results_of_def)


theorem hublab_search_results_witness:
  "(0::int) \<le> 2
   \<and> map_sum id (map res_score \<circ> results_of)
       (fst (hublab_search local_catalog HubLabSkill ''BUTTON'' None 2)) = Inr [180, 80]
   \<and> map_sum id (length \<circ> results_of)
       (fst (hublab_search local_catalog HubLabSkill ''BUTTON'' None 2)) = Inr 2
   \<and> capsules_cache HubLabSkill = JNull \<and> file_unavailable no_catalog
   \<and> api_unavailable no_catalog
   \<and> fst (hublab_search no_catalog HubLabSkill ''BUTTON'' None 2) =
       Inr (SearchError ''Could not load capsules. Check HUBLAB_PATH or API.''
              ''Set HUBLAB_PATH env var (current: /Users/c/hublab)'')"
proof -
  obtain out where o: "fst (hublab_search local_catalog HubLabSkill ''BUTTON'' None 2) = Inr out"
    and sc: "map res_score (results_of out) = [180, 80]"
    using local_search_scores [of 2]
    by (cases "fst (hublab_search local_catalog HubLabSkill ''BUTTON'' None 2)") auto
  have n: "capsules_cache HubLabSkill = JNull" "file_unavailable no_catalog"
    "api_unavailable no_catalog" "hublab_path no_catalog = ''/Users/c/hublab''"
    by (simp_all add: HubLabSkill_def no_catalog_def file_unavailable_def api_unavailable_def)
  from hublab_search_results [of local_catalog HubLabSkill "''BUTTON''" None 2] o
  have "int (length (results_of out)) \<le> 2 \<and> sorted_wrt (\<ge>) (map res_score (results_of out))"
    by simp
  moreover from hublab_search_results [of no_catalog HubLabSkill "''BUTTON''" None 2] n
  have "fst (hublab_search no_catalog HubLabSkill ''BUTTON'' None 2) =
       Inr (SearchError ''Could not load capsules. Check HUBLAB_PATH or API.''
              ''Set HUBLAB_PATH env var (current: /Users/c/hublab)'')"
    by simp
  moreover from sc have "length (results_of out) = 2"
    by (metis length_map list.size(3,4) One_nat_def Suc_1 add.left_neutral plus_1_eq_Suc)
  ultimately show ?thesis using o sc n by simp
qed

text \<open>
  C10 as stated fails for a negative limit: with three matching capsules and
  \<open>limit = -1\<close> the slice drops the last match only, and two results are returned.
\<close>

theorem hublab_search_limit_counterexample:
  "map_sum id (map res_score \<circ> results_of)
     (fst (hublab_search local_catalog HubLabSkill ''BUTTON'' None (- 1))) = Inr [180, 80]
   \<and> map_sum id (length \<circ> results_of)
     (fst (hublab_search local_catalog HubLabSkill ''BUTTON'' None (- 1))) = Inr 2
   \<and> \<not> (2 :: int) \<le> - 1"
proof -
  obtain out where "fst (hublab_search local_catalog HubLabSkill ''BUTTON'' None (- 1)) = Inr out"
    and "map res_score (results_of out) = [180, 80]"
    using local_search_scores [of "- 1"]
    by (cases "fst (hublab_search local_catalog HubLabSkill ''BUTTON'' None (- 1))") auto
  moreover from this(2) have "length (results_of out) = 2" by (metis length_map list.size(3,4) One_nat_def Suc_1 add.left_neutral plus_1_eq_Suc)
  ultimately show ?thesis by simp
qed

text \<open>
  Outside the amended claim: \<open>metadata_path.exists()\<close> stands outside the \<open>try\<close>, so
  when it raises and nothing is cached, the search raises what it raised.
\<close>

lemma hublab_search_exists_raises:
  "capsules_cache s = JNull \<Longrightarrow> path_exists env = Inl e \<Longrightarrow>
   fst (hublab_search env s query category limit) = Inl e"
  by (simp add: hublab_search_def load_capsules_def)

section \<open>Properties of the conversation history\<close>

lemma add_messages_length:
  "length (messages (add_messages adds c)) = length (messages c) + length adds"
  by (induction adds arbitrary: c) (auto simp: add_message_def)

lemma add_message_keeps_head:
  "messages c \<noteq> [] \<Longrightarrow>
   messages (add_message r t c) \<noteq> [] \<and> hd (messages (add_message r t c)) = hd (messages c)"
  by (simp add: add_message_def)

lemma add_messages_keeps_head:
  "messages c \<noteq> [] \<Longrightarrow>
   messages (add_messages adds c) \<noteq> [] \<and> hd (messages (add_messages adds c)) = hd (messages c)"
proof (induction adds arbitrary: c)
  case Nil
  then show ?case by simp
next
  case (Cons x adds)
  obtain r t where x: "x = (r, t)" by (cases x)
  from add_message_keeps_head [OF Cons.prems, of r t]
  have a: "messages (add_message r t c) \<noteq> []"
    and b: "hd (messages (add_message r t c)) = hd (messages c)" by blast+
  from Cons.IH [OF a] b show ?case unfolding x add_messages.simps by metis
qed

lemma set_system_prompt_head:
  "messages (set_system_prompt p c) \<noteq> [] \<and> hd (messages (set_system_prompt p c)) = Message System p"
  by (simp add: set_system_prompt_def)


lemma clear_history_leading:
  assumes "messages c \<noteq> []" "hd (messages c) = Message r t"
  shows "messages (clear_history c) = (if r = System then [Message System t] else [])"
proof (cases "messages c")
  case Nil
  with assms(1) show ?thesis by simp
next
  case (Cons m ms)
  with assms(2) have m: "m = Message r t" by simp
  have "has_system_prompt c = (r = System)"
    by (simp add: has_system_prompt_def Cons m Message_def)
  then show ?thesis by (simp add: clear_history_def Cons m)
qed

lemma clear_history_after_prompt:
  "messages (clear_history (add_messages adds (set_system_prompt p c))) = [Message System p]"
proof -
  let ?c = "add_messages adds (set_system_prompt p c)"
  have "messages (set_system_prompt p c) \<noteq> []"
    "hd (messages (set_system_prompt p c)) = Message System p"
    using set_system_prompt_head [of p c] by blast+
  with add_messages_keeps_head [of "set_system_prompt p c" adds]
  have "messages ?c \<noteq> []" "hd (messages ?c) = Message System p" by metis+
  from clear_history_leading [OF this] show ?thesis by simp
qed

lemma clear_history_new_client:
  "messages (clear_history (add_messages adds LLMClient)) =
       (case adds of [] \<Rightarrow> [] | (r, text) # _ \<Rightarrow> if r = System then [Message System text] else [])"
proof (cases adds)
  case Nil
  then show ?thesis by (simp add: clear_history_def has_system_prompt_def LLMClient_def)
next
  case (Cons x rest)
  obtain r t where x: "x = (r, t)" by (cases x)
  let ?d = "add_message r t LLMClient"
  have "messages ?d \<noteq> []" "hd (messages ?d) = Message r t"
    by (simp_all add: add_message_def LLMClient_def)
  with add_messages_keeps_head [of ?d rest]
  have "messages (add_messages rest ?d) \<noteq> []" "hd (messages (add_messages rest ?d)) = Message r t"
    by metis+
  from clear_history_leading [OF this]
  have "messages (clear_history (add_messages rest ?d)) = (if r = System then [Message System t] else [])" .
  then show ?thesis by (simp add: Cons x)
qed

lemma clear_history_messages:
  "messages (clear_history c) = (if has_system_prompt c then [hd (messages c)] else [])"
  by (simp add: clear_history_def)

lemma add_message_length: "length (messages (add_message r text c)) = length (messages c) + 1"
  by (simp add: add_message_def)

text \<open>
  C7. Each \<open>add_message\<close> call makes the history one message longer, so a sequence of
  calls makes it longer by the number of calls. \<open>clear_history\<close> leaves exactly the
  leading system message when the history starts with one, as it does after
  \<open>set_system_prompt\<close> and any sequence of \<open>add_message\<close> calls, and leaves no message
  otherwise.
\<close>

theorem history_length:
  "length (messages (add_message r text c)) = length (messages c) + 1
   \<and> length (messages (add_messages adds c)) = length (messages c) + length adds
   \<and> messages (clear_history (add_messages adds (set_system_prompt p c))) = [Message System p]
   \<and> messages (clear_history c) = (if has_system_prompt c then [hd (messages c)] else [])
   \<and> messages (clear_history (add_messages adds LLMClient)) =
       (case adds of [] \<Rightarrow> [] | (r, text) # _ \<Rightarrow> if r = System then [Message System text] else [])"
  by (intro conjI)
    (rule add_message_length, rule add_messages_length, rule clear_history_after_prompt,
     rule clear_history_messages, rule clear_history_new_client)


theorem history_length_witness:
  "length (messages (add_message User ''Hello'' LLMClient)) = 1
   \<and> messages (clear_history
        (add_messages [(User, ''Hello''), (Assistant, ''Hi'')] (set_system_prompt ''System'' LLMClient))) =
       [Message System ''System'']
   \<and> length (messages
        (add_messages [(User, ''Hello''), (Assistant, ''Hi'')] (set_system_prompt ''System'' LLMClient))) = 3
   \<and> messages (clear_history (add_messages [(User, ''Hello''), (Assistant, ''Hi'')] LLMClient)) = []"
proof -
  have n: "messages LLMClient = []" by (simp add: LLMClient_def)
  have p: "length (messages (set_system_prompt ''System'' LLMClient)) = 1"
    by (simp add: set_system_prompt_def has_system_prompt_def LLMClient_def)
  from history_length [of User "''Hello''" LLMClient "[(User, ''Hello''), (Assistant, ''Hi'')]" "''System''"]
    history_length [of User "''Hello''" "set_system_prompt ''System'' LLMClient"
      "[(User, ''Hello''), (Assistant, ''Hi'')]" "''System''"] n p
  show ?thesis by simp
qed

section \<open>Properties of the retry loop\<close>

lemma retry_loop_fatal:
  assumes "fst (operation s) = Inl e" "\<not> is_retriable e"
  shows "retry_loop cfg operation attempt left s = (Inl (Propagated e), 1, [], snd (operation s))"
  using assms by (cases left; cases "operation s") simp_all

lemma retry_loop_succeeds:
  "fails_then_succeeds operation s n v \<Longrightarrow> n \<le> left \<Longrightarrow>
   fst (retry_loop cfg operation attempt left s) = Inr v
   \<and> fst (snd (retry_loop cfg operation attempt left s)) = n + 1
   \<and> length (fst (snd (snd (retry_loop cfg operation attempt left s)))) = n"
proof (induction n arbitrary: s attempt left)
  case 0
  then show ?case by (cases left; cases "operation s") simp_all
next
  case (Suc n)
  from Suc.prems(2) obtain k where left: "left = Suc k" and k: "n \<le> k" by (cases left) simp_all
  obtain r s' where op: "operation s = (r, s')" by (cases "operation s")
  with Suc.prems(1) obtain e where e: "r = Inl e" "is_retriable e"
    and rest: "fails_then_succeeds operation s' n v"
    by (cases r) simp_all
  obtain r' i ds s'' where rl: "retry_loop cfg operation (attempt + 1) k s' = (r', i, ds, s'')"
    by (cases "retry_loop cfg operation (attempt + 1) k s'")
  with Suc.IH [OF rest k, of "attempt + 1"] have "r' = Inr v" "i = n + 1" "length ds = n"
    by simp_all
  with rl show ?case by (simp add: left op e)
qed


text \<open>
  C6. When the operation fails \<open>n\<close> times with a retriable failure and then returns
  \<open>v\<close>, and \<open>n\<close> is at most \<open>max_retries\<close>, \<open>with_retry\<close> returns \<open>v\<close> after invoking
  the operation exactly \<open>n + 1\<close> times, with \<open>n\<close> delays in between. When the operation
  fails with a failure that is not retriable, it is invoked exactly once and that failure
  propagates, with no delay.
\<close>

theorem with_retry_attempts:
  "(fails_then_succeeds operation s n v \<and> n \<le> max_retries cfg \<longrightarrow>
      fst (with_retry cfg operation s) = Inr v
      \<and> fst (snd (with_retry cfg operation s)) = n + 1
      \<and> length (fst (snd (snd (with_retry cfg operation s)))) = n)
   \<and> (fst (operation s) = Inl e \<and> \<not> is_retriable e \<longrightarrow>
      with_retry cfg operation s = (Inl (Propagated e), 1, [], snd (operation s)))"
proof (intro conjI impI)
  assume a: "fails_then_succeeds operation s n v \<and> n \<le> max_retries cfg"
  then have f: "fails_then_succeeds operation s n v" and m: "n \<le> max_retries cfg" by simp_all
  from retry_loop_succeeds [OF f m, of cfg 0]
  show "fst (with_retry cfg operation s) = Inr v"
    "fst (snd (with_retry cfg operation s)) = n + 1"
    "length (fst (snd (snd (with_retry cfg operation s)))) = n"
    unfolding with_retry_def by simp_all
next
  assume "fst (operation s) = Inl e \<and> \<not> is_retriable e"
  then show "with_retry cfg operation s = (Inl (Propagated e), 1, [], snd (operation s))"
    unfolding with_retry_def by (simp add: retry_loop_fatal)
qed


lemma flaky_fails_twice: "fails_then_succeeds flaky_func 0 2 ''success''"
  by (simp add: numeral_2_eq_2 flaky_func_def)

lemma flaky_run: "with_retry retry_twice flaky_func 0 = (Inr ''success'', 3, [1 / 100, 1 / 50], 3)"
  by (simp add: with_retry_def retry_twice_def numeral_2_eq_2 flaky_func_def backoff_def)


theorem with_retry_attempts_witness:
  "fails_then_succeeds flaky_func 0 2 ''success'' \<and> 2 \<le> max_retries retry_twice
   \<and> fst (with_retry retry_twice flaky_func 0) = Inr ''success''
   \<and> fst (snd (with_retry retry_twice flaky_func 0)) = 3
   \<and> fst (value_error_func 0) = Inl (MalformedInput ''Not retriable'')
   \<and> \<not> is_retriable (MalformedInput ''Not retriable'')
   \<and> with_retry retry_twice value_error_func 0 =
       (Inl (Propagated (MalformedInput ''Not retriable'')), 1, [], 1)"
proof -
  have m: "2 \<le> max_retries retry_twice" by (simp add: retry_twice_def)
  have v: "fst (value_error_func 0) = Inl (MalformedInput ''Not retriable'')"
    "snd (value_error_func 0) = 1"
    by (simp_all add: value_error_func_def)
  have n: "\<not> is_retriable (MalformedInput ''Not retriable'')" by simp
  from with_retry_attempts [of flaky_func 0 2 "''success''" retry_twice] flaky_fails_twice m
  have a: "fst (with_retry retry_twice flaky_func 0) = Inr ''success''"
    "fst (snd (with_retry retry_twice flaky_func 0)) = 3" by simp_all
  from with_retry_attempts [of value_error_func 0 _ _ retry_twice "MalformedInput ''Not retriable''"] v n
  have b: "with_retry retry_twice value_error_func 0 =
       (Inl (Propagated (MalformedInput ''Not retriable'')), 1, [], 1)" by simp
  from a b flaky_fails_twice m v n show ?thesis by simp
qed

section \<open>Properties of the token tracker\<close>

text \<open>
  C8. Recording \<open>(p1, c1)\<close> and \<open>(p2, c2)\<close> on a new tracker gives prompt total
  \<open>p1 + p2\<close>, completion total \<open>c1 + c2\<close>, token total \<open>p1 + c1 + p2 + c2\<close> and
  request count 2, and the two orders of recording give the same tracker.
\<close>

theorem tracker_record_two:
  "tracker_record p2 c2 (tracker_record p1 c1 TokenTracker) =
     \<lparr>total_prompt_tokens = p1 + p2, total_completion_tokens = c1 + c2,
      total_tokens = p1 + c1 + p2 + c2, total_requests = 2\<rparr>
   \<and> tracker_record p2 c2 (tracker_record p1 c1 TokenTracker) =
     tracker_record p1 c1 (tracker_record p2 c2 TokenTracker)"
  by (simp add: tracker_record_def TokenTracker_def)


end
